theory Spec2Isabelle
  imports Complex_Main
begin

section \<open>Anomaly detection engine of weather_analysis_ai (src/app/anomaly.py)\<close>

text \<open>
  Python floats are modelled as real numbers: rounding, overflow and signed zeros are not
  modelled.  The one exception is the monthly mean of the pandas path, which is rounded as
  IEEE binary64 arithmetic rounds it (section "pandas"): there the rounding decides whether
  the deviations of a month of equal values are zero.  A Python exception is a value of
  \<open>py_error\<close>; a function of the source that can raise returns \<open>py_error + 'a\<close>, with
  \<open>Inl\<close> for the raised exception.
\<close>

datatype py_error = ZeroDivisionError | ValueError | IndexError | KeyError | StorageError

subsection \<open>Python primitives\<close>

definition truediv :: "real \<Rightarrow> real \<Rightarrow> py_error + real" where
  \<comment> \<open>\<open>a / b\<close> on Python floats\<close>
  "truediv a b = (if b = 0 then Inl ZeroDivisionError else Inr (a / b))"

definition math_sqrt :: "real \<Rightarrow> py_error + real" where
  "math_sqrt x = (if x < 0 then Inl ValueError else Inr (sqrt x))"

subsection \<open>Statistics kernel: calculate_mean, calculate_std, calculate_z_score\<close>

definition calculate_mean :: "real list \<Rightarrow> py_error + real" where
  "calculate_mean vals =
     (if vals = [] then Inr 0
      else truediv (sum_list vals) (real (length vals)))"

definition calculate_std :: "real list \<Rightarrow> py_error + real" where
  "calculate_std vals =
     (if length vals < 2 then Inr 0
      else case calculate_mean vals of
          Inl e \<Rightarrow> Inl e
        | Inr mean_val \<Rightarrow>
           (case truediv (sum_list (map (\<lambda>x. (x - mean_val)\<^sup>2) vals))
                         (real_of_int (int (length vals) - 1)) of
              Inl e \<Rightarrow> Inl e
            | Inr variance \<Rightarrow> math_sqrt variance))"

definition calculate_z_score :: "real \<Rightarrow> real \<Rightarrow> real \<Rightarrow> py_error + real" where
  "calculate_z_score val mean std =
     (if std = 0 then Inr 0 else truediv (val - mean) std)"

text \<open>The values the kernel returns, as plain real functions.\<close>

definition mean_of :: "real list \<Rightarrow> real" where
  "mean_of vals = (if vals = [] then 0 else sum_list vals / real (length vals))"

definition sample_variance :: "real list \<Rightarrow> real" where
  "sample_variance vals =
     sum_list (map (\<lambda>x. (x - mean_of vals)\<^sup>2) vals) / (real (length vals) - 1)"

definition sample_std :: "real list \<Rightarrow> real" where
  "sample_std vals = (if length vals < 2 then 0 else sqrt (sample_variance vals))"

subsection \<open>Severity classification: determine_severity\<close>

text \<open>
  A column of a pandas DataFrame holds IEEE floats: dividing by zero gives an infinity or
  NaN instead of raising.  \<open>pfloat\<close> adds these three values to the reals.
\<close>

datatype pfloat = Fin real | NaN | PInf | NInf

fun pf_abs :: "pfloat \<Rightarrow> pfloat" where
  "pf_abs (Fin a) = Fin \<bar>a\<bar>"
| "pf_abs NaN = NaN"
| "pf_abs PInf = PInf"
| "pf_abs NInf = PInf"

fun pf_ge :: "pfloat \<Rightarrow> real \<Rightarrow> bool" where
  \<comment> \<open>\<open>x >= c\<close> for a finite constant \<open>c\<close>; every comparison with NaN is false\<close>
  "pf_ge (Fin a) c = (c \<le> a)"
| "pf_ge NaN c = False"
| "pf_ge PInf c = True"
| "pf_ge NInf c = False"

fun pf_sub :: "pfloat \<Rightarrow> pfloat \<Rightarrow> pfloat" where
  "pf_sub (Fin a) (Fin b) = Fin (a - b)"
| "pf_sub NaN y = NaN"
| "pf_sub x NaN = NaN"
| "pf_sub PInf PInf = NaN"
| "pf_sub NInf NInf = NaN"
| "pf_sub PInf y = PInf"
| "pf_sub NInf y = NInf"
| "pf_sub x PInf = NInf"
| "pf_sub x NInf = PInf"

fun pf_div :: "pfloat \<Rightarrow> pfloat \<Rightarrow> pfloat" where
  "pf_div (Fin a) (Fin b) =
     (if b = 0 then (if a = 0 then NaN else if 0 < a then PInf else NInf)
      else Fin (a / b))"
| "pf_div NaN y = NaN"
| "pf_div x NaN = NaN"
| "pf_div (Fin a) y = Fin 0"
| "pf_div PInf (Fin b) = (if 0 \<le> b then PInf else NInf)"
| "pf_div NInf (Fin b) = (if 0 \<le> b then NInf else PInf)"
| "pf_div x y = NaN"

fun fillna :: "real \<Rightarrow> pfloat \<Rightarrow> pfloat" where
  "fillna c NaN = Fin c"
| "fillna c x = x"

fun isna :: "pfloat \<Rightarrow> bool" where
  "isna NaN = True"
| "isna x = False"

datatype AnomalySeverity = LOW | MEDIUM | HIGH | EXTREME

datatype WeatherDataType = TEMPERATURE | PRECIPITATION | HUMIDITY | PRESSURE | WIND

definition determine_severity :: "pfloat \<Rightarrow> AnomalySeverity" where
  "determine_severity z_score =
     (let abs_z = pf_abs z_score in
      if pf_ge abs_z 2.5 then EXTREME
      else if pf_ge abs_z 2.0 then HIGH
      else if pf_ge abs_z 1.5 then MEDIUM
      else LOW)"

subsection \<open>Data model: stored weather documents and the Anomaly model\<close>

text \<open>
  A document of the weather collection.  \<open>w_month\<close> and \<open>tas_avg\<close> are \<open>None\<close> when
  the key is absent from the document (the source reads them with \<open>record.get('month', 1)\<close>
  and tests \<open>'tas_avg' in weather_data[0]\<close>).
\<close>

record weather_doc =
  w_id :: string
  w_year :: int
  w_month :: "int option"
  pr_total :: real
  tasmax_avg :: real
  tasmin_avg :: real
  tas_avg :: "real option"
  w_location :: string

definition get_month :: "weather_doc \<Rightarrow> int" where
  "get_month r = (case w_month r of None \<Rightarrow> 1 | Some m \<Rightarrow> m)"

text \<open>
  The description of an anomaly is an f-string; it is kept as the template that was used
  together with the values formatted into it.
\<close>

datatype description =
    PrecipitationAnomalyText int int real pfloat pfloat pfloat
  | MaximumTemperatureAnomalyText int int real pfloat pfloat pfloat
  | MinimumTemperatureAnomalyText int int real pfloat pfloat pfloat
  | RecordHighTemperatureText int real int real
  | RecordLowTemperatureText int real int real
  | RecordHighPrecipitationText int real int real
  | MovingAverageAnomalyText real real real

text \<open>
  The pydantic model \<open>Anomaly\<close> (src/app/models.py) without \<open>id\<close> (never set by the
  detectors) and \<open>detected_at\<close> (the wall-clock time of creation).
\<close>

record anomaly =
  weather_data_id :: string
  anomaly_type :: WeatherDataType
  severity :: AnomalySeverity
  anomaly_value :: real
  expected_value :: pfloat
  deviation :: pfloat
  z_score :: pfloat
  description :: description
  location :: string
  monthly_historical_avg :: "pfloat option"
  monthly_anomaly_std :: "pfloat option"
  is_significant :: "bool option"
  metric_type :: "string option"

definition Anomaly ::
  "string \<Rightarrow> WeatherDataType \<Rightarrow> AnomalySeverity \<Rightarrow> real \<Rightarrow> pfloat \<Rightarrow> pfloat \<Rightarrow> pfloat
   \<Rightarrow> description \<Rightarrow> string \<Rightarrow> anomaly" where
  \<comment> \<open>the constructor called with the required fields only: the optional fields take their defaults\<close>
  "Anomaly wid ty sev v ev dev z descr loc =
     \<lparr>weather_data_id = wid, anomaly_type = ty, severity = sev, anomaly_value = v,
      expected_value = ev, deviation = dev, z_score = z, description = descr,
      location = loc, monthly_historical_avg = None, monthly_anomaly_std = None,
      is_significant = Some False, metric_type = None\<rparr>"

subsection \<open>The DataFrame of a location: get_weather_dataframe\<close>

record weather_row =
  row_id :: string
  date :: "int \<times> int \<times> int"
  year :: int
  month :: int
  pr :: real
  tasmax :: real
  tasmin :: real
  row_location :: string

definition py_datetime :: "int \<Rightarrow> int \<Rightarrow> int \<Rightarrow> py_error + int \<times> int \<times> int" where
  \<comment> \<open>\<open>datetime(y, m, 1)\<close>: ValueError outside years 1..9999 and months 1..12; the
      narrower range of \<open>pd.to_datetime\<close> is not modelled (it would only empty the
      DataFrame on more inputs)\<close>
  "py_datetime y m d =
     (if 1 \<le> y \<and> y \<le> 9999 \<and> 1 \<le> m \<and> m \<le> 12 \<and> d = 1 then Inr (y, m, d)
      else Inl ValueError)"

definition df_row :: "string \<Rightarrow> weather_doc \<Rightarrow> py_error + weather_row" where
  "df_row loc record =
     (case py_datetime (w_year record) (get_month record) 1 of
        Inl e \<Rightarrow> Inl e
      | Inr d \<Rightarrow>
          Inr \<lparr>row_id = w_id record, date = d, year = w_year record,
               month = get_month record, pr = pr_total record,
               tasmax = tasmax_avg record, tasmin = tasmin_avg record,
               row_location = loc\<rparr>)"

text \<open>A loop that appends to a list; an exception raised by the body leaves the loop.\<close>

fun traverse :: "('a \<Rightarrow> py_error + 'b) \<Rightarrow> 'a list \<Rightarrow> py_error + 'b list" where
  "traverse f [] = Inr []"
| "traverse f (x # xs) =
     (case f x of
        Inl e \<Rightarrow> Inl e
      | Inr y \<Rightarrow> (case traverse f xs of Inl e \<Rightarrow> Inl e | Inr ys \<Rightarrow> Inr (y # ys)))"

definition get_weather_dataframe :: "string \<Rightarrow> weather_doc list \<Rightarrow> weather_row list" where
  \<comment> \<open>\<open>weather_data\<close> is what \<open>weather_collection.find({"location": location}).sort("year", 1)\<close>
      returned; the empty list is the empty DataFrame, also returned by the except branch\<close>
  "get_weather_dataframe loc weather_data =
     (if weather_data = [] then []
      else case traverse (df_row loc) weather_data of Inl e \<Rightarrow> [] | Inr df_data \<Rightarrow> df_data)"

subsection \<open>pandas: groupby, aggregation, left merge\<close>

text \<open>
  The mean of a float64 column: the sum from left to right and one division, each result
  rounded to the nearest binary64 number, ties to even (numbers outside the normal range
  are not modelled).  On the data evaluated below every sum is exact or a tie that
  compensated summation rounds the same way.
\<close>

definition round_half_even :: "real \<Rightarrow> int" where
  "round_half_even x =
     (let f = \<lfloor>x\<rfloor>; d = x - of_int f in
      if d < 1 / 2 then f else if 1 / 2 < d then f + 1 else if even f then f else f + 1)"

definition fl :: "real \<Rightarrow> real" where
  \<comment> \<open>rounding to 53 significant bits\<close>
  "fl x =
     (if x = 0 then 0
      else let e = \<lfloor>log 2 \<bar>x\<bar>\<rfloor> - 52 in
        of_int (round_half_even (x / 2 powr of_int e)) * 2 powr of_int e)"

definition float_sum :: "real list \<Rightarrow> real" where
  "float_sum xs = foldl (\<lambda>s x. fl (s + x)) 0 xs"

definition float_mean :: "real list \<Rightarrow> real" where
  "float_mean xs = fl (float_sum xs / real (length xs))"

definition pd_mean :: "real list \<Rightarrow> pfloat" where
  "pd_mean xs = (if xs = [] then NaN else Fin (float_mean xs))"

fun finite_part :: "pfloat list \<Rightarrow> real list" where
  "finite_part [] = []"
| "finite_part (Fin a # xs) = a # finite_part xs"
| "finite_part (x # xs) = finite_part xs"

definition pd_std :: "pfloat list \<Rightarrow> pfloat" where
  \<comment> \<open>\<open>std\<close> with the default \<open>ddof=1\<close>: NaN values are skipped, fewer than two
      values give NaN, an infinite value gives NaN\<close>
  "pd_std xs =
     (let ys = filter (\<lambda>x. \<not> isna x) xs in
      if PInf \<in> set ys \<or> NInf \<in> set ys then NaN
      else if length ys < 2 then NaN
      else Fin (sqrt (sample_variance (finite_part ys))))"

definition groupby_agg :: "('v list \<Rightarrow> pfloat) \<Rightarrow> (int \<times> 'v) list \<Rightarrow> (int \<times> pfloat) list" where
  \<comment> \<open>\<open>groupby('month').agg(...).reset_index()\<close> on one column: one line per month that
      occurs, months ascending\<close>
  "groupby_agg agg kvs =
     map (\<lambda>m. (m, agg (map snd (filter (\<lambda>kv. fst kv = m) kvs)))) (sort (remdups (map fst kvs)))"

definition merge_left :: "(int \<times> pfloat) list \<Rightarrow> int \<Rightarrow> pfloat" where
  \<comment> \<open>the column that \<open>pd.merge(df, table, on='month', how='left')\<close> adds to a row of month \<open>m\<close>\<close>
  "merge_left tbl m = (case map_of tbl m of None \<Rightarrow> NaN | Some v \<Rightarrow> v)"

subsection \<open>Baselines and z-scores: calculate_anomalies_with_zscores\<close>

text \<open>
  The source computes the same columns for 'pr', 'tasmax' and 'tasmin'; \<open>col\<close> is the
  column the computation runs on.
\<close>

definition calculate_monthly_historical_averages ::
  "(weather_row \<Rightarrow> real) \<Rightarrow> weather_row list \<Rightarrow> (int \<times> pfloat) list" where
  "calculate_monthly_historical_averages col df =
     groupby_agg pd_mean (map (\<lambda>r. (month r, col r)) df)"

definition col_monthly_avg_historical :: "(weather_row \<Rightarrow> real) \<Rightarrow> weather_row list \<Rightarrow> weather_row \<Rightarrow> pfloat" where
  "col_monthly_avg_historical col df r =
     merge_left (calculate_monthly_historical_averages col df) (month r)"

definition col_anomaly :: "(weather_row \<Rightarrow> real) \<Rightarrow> weather_row list \<Rightarrow> weather_row \<Rightarrow> pfloat" where
  "col_anomaly col df r = pf_sub (Fin (col r)) (col_monthly_avg_historical col df r)"

definition col_anomaly_std :: "(weather_row \<Rightarrow> real) \<Rightarrow> weather_row list \<Rightarrow> weather_row \<Rightarrow> pfloat" where
  "col_anomaly_std col df r =
     merge_left (groupby_agg pd_std (map (\<lambda>x. (month x, col_anomaly col df x)) df)) (month r)"

definition col_anomaly_zscore_raw :: "(weather_row \<Rightarrow> real) \<Rightarrow> weather_row list \<Rightarrow> weather_row \<Rightarrow> pfloat" where
  \<comment> \<open>the z-score column before \<open>fillna(0)\<close>\<close>
  "col_anomaly_zscore_raw col df r = pf_div (col_anomaly col df r) (col_anomaly_std col df r)"

definition zscore_threshold :: real where
  "zscore_threshold = 2.0"

definition col_anomaly_significant :: "(weather_row \<Rightarrow> real) \<Rightarrow> weather_row list \<Rightarrow> weather_row \<Rightarrow> bool" where
  "col_anomaly_significant col df r =
     pf_ge (pf_abs (col_anomaly_zscore_raw col df r)) zscore_threshold"

definition col_anomaly_zscore :: "(weather_row \<Rightarrow> real) \<Rightarrow> weather_row list \<Rightarrow> weather_row \<Rightarrow> pfloat" where
  "col_anomaly_zscore col df r = fillna 0 (col_anomaly_zscore_raw col df r)"

record metric_columns =
  monthly_avg_historical_of :: pfloat
  anomaly_of :: pfloat
  anomaly_std_of :: pfloat
  anomaly_zscore_of :: pfloat
  anomaly_significant_of :: bool

definition metric_cols :: "(weather_row \<Rightarrow> real) \<Rightarrow> weather_row list \<Rightarrow> weather_row \<Rightarrow> metric_columns" where
  "metric_cols col df r =
     \<lparr>monthly_avg_historical_of = col_monthly_avg_historical col df r,
      anomaly_of = col_anomaly col df r,
      anomaly_std_of = col_anomaly_std col df r,
      anomaly_zscore_of = col_anomaly_zscore col df r,
      anomaly_significant_of = col_anomaly_significant col df r\<rparr>"

record anomaly_row =
  base :: weather_row
  pr_cols :: metric_columns
  tasmax_cols :: metric_columns
  tasmin_cols :: metric_columns

definition calculate_anomalies_with_zscores :: "weather_row list \<Rightarrow> anomaly_row list" where
  "calculate_anomalies_with_zscores df =
     map (\<lambda>r. \<lparr>base = r, pr_cols = metric_cols pr df r,
               tasmax_cols = metric_cols tasmax df r,
               tasmin_cols = metric_cols tasmin df r\<rparr>) df"

text \<open>
  The values the scorer works with for a row of calendar month \<open>m\<close> and a column
  \<open>col\<close>: the rows of the month, their float mean (the baseline) and their deviations
  from it.
\<close>

definition month_group :: "weather_row list \<Rightarrow> int \<Rightarrow> weather_row list" where
  "month_group df m = filter (\<lambda>x. month x = m) df"

definition baseline :: "(weather_row \<Rightarrow> real) \<Rightarrow> weather_row list \<Rightarrow> int \<Rightarrow> real" where
  "baseline col df m = float_mean (map col (month_group df m))"

definition deviations :: "(weather_row \<Rightarrow> real) \<Rightarrow> weather_row list \<Rightarrow> int \<Rightarrow> real list" where
  "deviations col df m = map (\<lambda>x. col x - baseline col df m) (month_group df m)"

subsection \<open>Time series of the scores: get_anomaly_timeseries_data\<close>

record metric_series =
  ts_dates :: "(int \<times> int \<times> int) list"
  ts_anomalies :: "pfloat list"
  ts_z_scores :: "pfloat list"
  ts_significant :: "bool list"
  ts_values :: "real list"
  ts_historical_avg :: "pfloat list"

record timeseries =
  precipitation :: metric_series
  max_temperature :: metric_series
  min_temperature :: metric_series

definition metric_timeseries ::
  "(anomaly_row \<Rightarrow> metric_columns) \<Rightarrow> (weather_row \<Rightarrow> real) \<Rightarrow> anomaly_row list \<Rightarrow> metric_series" where
  "metric_timeseries cols col df_anomalies =
     \<lparr>ts_dates = map (\<lambda>row. date (base row)) df_anomalies,
      ts_anomalies = map (\<lambda>row. anomaly_of (cols row)) df_anomalies,
      ts_z_scores = map (\<lambda>row. anomaly_zscore_of (cols row)) df_anomalies,
      ts_significant = map (\<lambda>row. anomaly_significant_of (cols row)) df_anomalies,
      ts_values = map (\<lambda>row. col (base row)) df_anomalies,
      ts_historical_avg = map (\<lambda>row. monthly_avg_historical_of (cols row)) df_anomalies\<rparr>"

definition get_anomaly_timeseries_data :: "string \<Rightarrow> weather_doc list \<Rightarrow> timeseries option" where
  \<comment> \<open>\<open>None\<close> is the empty dictionary\<close>
  "get_anomaly_timeseries_data loc weather_data =
     (let df = get_weather_dataframe loc weather_data in
      if df = [] then None
      else let df_anomalies = calculate_anomalies_with_zscores df in
        if df_anomalies = [] then None
        else Some \<lparr>precipitation = metric_timeseries pr_cols pr df_anomalies,
                   max_temperature = metric_timeseries tasmax_cols tasmax df_anomalies,
                   min_temperature = metric_timeseries tasmin_cols tasmin df_anomalies\<rparr>)"

subsection \<open>The primary path: get_notebook_style_anomalies\<close>

definition precipitation_anomaly :: "string \<Rightarrow> anomaly_row \<Rightarrow> anomaly" where
  "precipitation_anomaly loc row =
     (let r = base row; c = pr_cols row in
      (Anomaly (row_id r) PRECIPITATION (determine_severity (anomaly_zscore_of c)) (pr r)
         (monthly_avg_historical_of c) (anomaly_of c) (anomaly_zscore_of c)
         (PrecipitationAnomalyText (year r) (month r) (pr r) (monthly_avg_historical_of c)
            (anomaly_of c) (anomaly_zscore_of c))
         loc)
      \<lparr>monthly_historical_avg := Some (monthly_avg_historical_of c),
       monthly_anomaly_std := Some (anomaly_std_of c),
       is_significant := Some True\<rparr>)"

definition maximum_temperature_anomaly :: "string \<Rightarrow> anomaly_row \<Rightarrow> anomaly" where
  "maximum_temperature_anomaly loc row =
     (let r = base row; c = tasmax_cols row in
      (Anomaly (row_id r) TEMPERATURE (determine_severity (anomaly_zscore_of c)) (tasmax r)
         (monthly_avg_historical_of c) (anomaly_of c) (anomaly_zscore_of c)
         (MaximumTemperatureAnomalyText (year r) (month r) (tasmax r)
            (monthly_avg_historical_of c) (anomaly_of c) (anomaly_zscore_of c))
         loc)
      \<lparr>monthly_historical_avg := Some (monthly_avg_historical_of c),
       monthly_anomaly_std := Some (anomaly_std_of c),
       is_significant := Some True,
       metric_type := Some ''tasmax''\<rparr>)"

definition minimum_temperature_anomaly :: "string \<Rightarrow> anomaly_row \<Rightarrow> anomaly" where
  "minimum_temperature_anomaly loc row =
     (let r = base row; c = tasmin_cols row in
      (Anomaly (row_id r) TEMPERATURE (determine_severity (anomaly_zscore_of c)) (tasmin r)
         (monthly_avg_historical_of c) (anomaly_of c) (anomaly_zscore_of c)
         (MinimumTemperatureAnomalyText (year r) (month r) (tasmin r)
            (monthly_avg_historical_of c) (anomaly_of c) (anomaly_zscore_of c))
         loc)
      \<lparr>monthly_historical_avg := Some (monthly_avg_historical_of c),
       monthly_anomaly_std := Some (anomaly_std_of c),
       is_significant := Some True,
       metric_type := Some ''tasmin''\<rparr>)"

definition row_anomalies :: "string \<Rightarrow> anomaly_row \<Rightarrow> anomaly list" where
  \<comment> \<open>the body of the loop over \<open>df_anomalies.iterrows()\<close>: up to three appends, in this order\<close>
  "row_anomalies loc row =
     (if anomaly_significant_of (pr_cols row) \<and> \<not> isna (anomaly_zscore_of (pr_cols row))
      then [precipitation_anomaly loc row] else [])
     @ (if anomaly_significant_of (tasmax_cols row) \<and> \<not> isna (anomaly_zscore_of (tasmax_cols row))
        then [maximum_temperature_anomaly loc row] else [])
     @ (if anomaly_significant_of (tasmin_cols row) \<and> \<not> isna (anomaly_zscore_of (tasmin_cols row))
        then [minimum_temperature_anomaly loc row] else [])"

definition get_notebook_style_anomalies :: "string \<Rightarrow> weather_doc list \<Rightarrow> anomaly list" where
  "get_notebook_style_anomalies loc weather_data =
     (let df = get_weather_dataframe loc weather_data in
      if df = [] then []
      else let df_anomalies = calculate_anomalies_with_zscores df in
        if df_anomalies = [] then []
        else concat (map (row_anomalies loc) df_anomalies))"

subsection \<open>Extreme events: detect_extreme_events\<close>

fun add_record :: "(int \<times> weather_doc list) list \<Rightarrow> int \<Rightarrow> weather_doc \<Rightarrow> (int \<times> weather_doc list) list" where
  \<comment> \<open>\<open>monthly_records[month].append(record)\<close> on a dict, which keeps the order of insertion\<close>
  "add_record [] m r = [(m, [r])]"
| "add_record ((k, rs) # rest) m r =
     (if k = m then (k, rs @ [r]) # rest else (k, rs) # add_record rest m r)"

definition monthly_records :: "weather_doc list \<Rightarrow> (int \<times> weather_doc list) list" where
  "monthly_records weather_data = foldl (\<lambda>acc r. add_record acc (get_month r) r) [] weather_data"

fun seq_append :: "py_error + 'a list \<Rightarrow> py_error + 'a list \<Rightarrow> py_error + 'a list" where
  \<comment> \<open>two statements that append to the same list, one after the other\<close>
  "seq_append (Inl e) y = Inl e"
| "seq_append (Inr xs) (Inl e) = Inl e"
| "seq_append (Inr xs) (Inr ys) = Inr (xs @ ys)"

definition collect :: "('a \<Rightarrow> py_error + 'b list) \<Rightarrow> 'a list \<Rightarrow> py_error + 'b list" where
  \<comment> \<open>a loop whose body appends any number of elements\<close>
  "collect f xs = (case traverse f xs of Inl e \<Rightarrow> Inl e | Inr yss \<Rightarrow> Inr (concat yss))"

definition extreme_z_score :: "real \<Rightarrow> real list \<Rightarrow> py_error + real" where
  \<comment> \<open>\<open>(extreme - self.calculate_mean(vals)) / self.calculate_std(vals)\<close>\<close>
  "extreme_z_score extreme vals =
     (case calculate_mean vals of
        Inl e \<Rightarrow> Inl e
      | Inr m \<Rightarrow> (case calculate_std vals of
                    Inl e \<Rightarrow> Inl e
                  | Inr s \<Rightarrow> truediv (extreme - m) s))"

definition extreme_check ::
  "string \<Rightarrow> WeatherDataType \<Rightarrow> (real \<Rightarrow> int \<Rightarrow> real \<Rightarrow> description) \<Rightarrow> (weather_doc \<Rightarrow> real)
   \<Rightarrow> real list \<Rightarrow> real \<Rightarrow> weather_doc \<Rightarrow> py_error + anomaly list" where
  \<comment> \<open>one of the three \<open>if record[field] == extreme:\<close> blocks\<close>
  "extreme_check loc ty text field vals extreme record =
     (if field record = extreme then
        (case extreme_z_score extreme vals of
           Inl e \<Rightarrow> Inl e
         | Inr z \<Rightarrow>
            if 2.0 \<le> \<bar>z\<bar> then
              (case calculate_mean vals of
                 Inl e \<Rightarrow> Inl e
               | Inr m \<Rightarrow>
                  Inr [Anomaly (w_id record) ty EXTREME extreme (Fin m) (Fin (extreme - m)) (Fin z)
                         (text extreme (w_year record) z) loc])
            else Inr [])
      else Inr [])"

definition record_checks ::
  "string \<Rightarrow> int \<Rightarrow> weather_doc list \<Rightarrow> weather_doc \<Rightarrow> py_error + anomaly list" where
  "record_checks loc m records record =
     (let max_temps = map tasmax_avg records;
          min_temps = map tasmin_avg records;
          precips = map pr_total records;
          max_temp = Max (set max_temps);
          min_temp = Min (set min_temps);
          max_precip = Max (set precips)
      in seq_append
           (extreme_check loc TEMPERATURE (RecordHighTemperatureText m) tasmax_avg
              max_temps max_temp record)
           (seq_append
              (extreme_check loc TEMPERATURE (RecordLowTemperatureText m) tasmin_avg
                 min_temps min_temp record)
              (extreme_check loc PRECIPITATION (RecordHighPrecipitationText m) pr_total
                 precips max_precip record)))"

definition month_extremes :: "string \<Rightarrow> int \<times> weather_doc list \<Rightarrow> py_error + anomaly list" where
  "month_extremes loc entry =
     (let m = fst entry; records = snd entry in
      if length records < 10 then Inr []
      else collect (record_checks loc m records) records)"

definition detect_extreme_events_try :: "string \<Rightarrow> weather_doc list \<Rightarrow> py_error + anomaly list" where
  \<comment> \<open>the body of the \<open>try\<close> block\<close>
  "detect_extreme_events_try loc weather_data =
     (if weather_data = [] then Inr []
      else collect (month_extremes loc) (monthly_records weather_data))"

definition detect_extreme_events :: "string \<Rightarrow> weather_doc list \<Rightarrow> anomaly list" where
  \<comment> \<open>\<open>except Exception\<close>: the error is printed and the empty list returned\<close>
  "detect_extreme_events loc weather_data =
     (case detect_extreme_events_try loc weather_data of Inl e \<Rightarrow> [] | Inr anomalies \<Rightarrow> anomalies)"

subsection \<open>Moving average: detect_moving_average_anomalies\<close>

definition py_index :: "'a list \<Rightarrow> int \<Rightarrow> py_error + 'a" where
  \<comment> \<open>\<open>xs[i]\<close>: a negative index counts from the end, an index out of range raises\<close>
  "py_index xs i =
     (if 0 \<le> i \<and> i < int (length xs) then Inr (xs ! nat i)
      else if i < 0 \<and> - int (length xs) \<le> i then Inr (xs ! nat (int (length xs) + i))
      else Inl IndexError)"

definition slice_bound :: "int \<Rightarrow> int \<Rightarrow> int" where
  "slice_bound n i = (if i < 0 then max 0 (n + i) else min i n)"

definition py_slice :: "'a list \<Rightarrow> int \<Rightarrow> int \<Rightarrow> 'a list" where
  \<comment> \<open>\<open>xs[start:stop]\<close>\<close>
  "py_slice xs start stop =
     (let n = int (length xs); s = slice_bound n start; e = slice_bound n stop in
      take (nat (e - s)) (drop (nat s) xs))"

definition window_data :: "real list \<Rightarrow> int \<Rightarrow> int \<Rightarrow> real list" where
  "window_data vals window_size i =
     (let start = max 0 (i - window_size div 2);
          stop = min (int (length vals)) (i + window_size div 2 + 1)
      in py_slice vals start stop)"

definition window_stats :: "real list \<Rightarrow> int \<Rightarrow> int \<Rightarrow> py_error + real \<times> real" where
  "window_stats vals window_size i =
     (case calculate_mean (window_data vals window_size i) of
        Inl e \<Rightarrow> Inl e
      | Inr ma \<Rightarrow> (case calculate_std (window_data vals window_size i) of
                     Inl e \<Rightarrow> Inl e
                   | Inr ma_std \<Rightarrow> Inr (ma, ma_std)))"

definition moving_stats :: "real list \<Rightarrow> int \<Rightarrow> py_error + (real \<times> real) list" where
  \<comment> \<open>the first loop: \<open>moving_averages\<close> and \<open>moving_stds\<close>, filled side by side\<close>
  "moving_stats vals window_size =
     traverse (window_stats vals window_size) (map int [0 ..< length vals])"

definition ma_check ::
  "string \<Rightarrow> weather_doc list \<Rightarrow> real list \<Rightarrow> real list \<Rightarrow> real list \<Rightarrow> int
   \<Rightarrow> py_error + anomaly list" where
  \<comment> \<open>the body of the second loop\<close>
  "ma_check loc weather_data vals moving_averages moving_stds i =
     (case py_index vals i of
        Inl e \<Rightarrow> Inl e
      | Inr current_temp \<Rightarrow>
     (case py_index moving_averages i of
        Inl e \<Rightarrow> Inl e
      | Inr ma_temp \<Rightarrow>
     (case py_index moving_stds i of
        Inl e \<Rightarrow> Inl e
      | Inr ma_std \<Rightarrow>
         if 0 < ma_std then
           (case truediv (current_temp - ma_temp) ma_std of
              Inl e \<Rightarrow> Inl e
            | Inr z \<Rightarrow>
               if 2.0 \<le> \<bar>z\<bar> then
                 (case py_index weather_data i of
                    Inl e \<Rightarrow> Inl e
                  | Inr d \<Rightarrow>
                     Inr [Anomaly (w_id d) TEMPERATURE (determine_severity (Fin z)) current_temp
                            (Fin ma_temp) (Fin (current_temp - ma_temp)) (Fin z)
                            (MovingAverageAnomalyText current_temp ma_temp z) loc])
               else Inr [])
         else Inr [])))"

definition tas_avg_of :: "weather_doc \<Rightarrow> py_error + real" where
  \<comment> \<open>\<open>d['tas_avg']\<close>\<close>
  "tas_avg_of d = (case tas_avg d of None \<Rightarrow> Inl KeyError | Some v \<Rightarrow> Inr v)"

definition detect_moving_average_anomalies_try ::
  "string \<Rightarrow> int \<Rightarrow> weather_doc list \<Rightarrow> py_error + anomaly list" where
  \<comment> \<open>the body of the \<open>try\<close> block; \<open>window_size\<close> defaults to 10 in the source\<close>
  "detect_moving_average_anomalies_try loc window_size weather_data =
     (if int (length weather_data) < window_size then Inr []
      else case py_index weather_data 0 of
          Inl e \<Rightarrow> Inl e
        | Inr first \<Rightarrow>
           if tas_avg first \<noteq> None then
             (case traverse tas_avg_of weather_data of
                Inl e \<Rightarrow> Inl e
              | Inr vals \<Rightarrow>
                 (case moving_stats vals window_size of
                    Inl e \<Rightarrow> Inl e
                  | Inr stats \<Rightarrow>
                     collect (ma_check loc weather_data vals (map fst stats) (map snd stats))
                       [window_size .. int (length vals) - window_size - 1]))
           else Inr [])"

definition detect_moving_average_anomalies :: "string \<Rightarrow> int \<Rightarrow> weather_doc list \<Rightarrow> anomaly list" where
  "detect_moving_average_anomalies loc window_size weather_data =
     (case detect_moving_average_anomalies_try loc window_size weather_data of
        Inl e \<Rightarrow> []
      | Inr anomalies \<Rightarrow> anomalies)"

subsection \<open>Persistence: save_anomalies and run_full_anomaly_detection\<close>

text \<open>
  The anomaly collection of the storage collaborator: its documents, and whether it
  rejects (raises on) a delete or an insert call.  A rejected call leaves the documents
  as they were.
\<close>

record anomaly_store =
  documents :: "anomaly list"
  rejects_delete :: bool
  rejects_insert :: bool

definition delete_many :: "string \<Rightarrow> anomaly_store \<Rightarrow> py_error + anomaly_store" where
  \<comment> \<open>\<open>anomaly_collection.delete_many({"location": location})\<close>\<close>
  "delete_many loc st =
     (if rejects_delete st then Inl StorageError
      else Inr (st\<lparr>documents := filter (\<lambda>a. location a \<noteq> loc) (documents st)\<rparr>))"

definition insert_many :: "anomaly list \<Rightarrow> anomaly_store \<Rightarrow> py_error + anomaly_store \<times> nat" where
  \<comment> \<open>\<open>anomaly_collection.insert_many(docs)\<close>, with the number of inserted ids\<close>
  "insert_many docs st =
     (if rejects_insert st then Inl StorageError
      else Inr (st\<lparr>documents := documents st @ docs\<rparr>, length docs))"

fun remove_duplicates :: "(string \<times> WeatherDataType) set \<Rightarrow> anomaly list \<Rightarrow> anomaly list" where
  \<comment> \<open>the loop over \<open>anomaly_dicts\<close> with the set \<open>seen\<close>\<close>
  "remove_duplicates seen [] = []"
| "remove_duplicates seen (a # rest) =
     (let key = (weather_data_id a, anomaly_type a) in
      if key \<notin> seen then a # remove_duplicates (insert key seen) rest
      else remove_duplicates seen rest)"

datatype save_message =
  NoAnomaliesToSave | SuccessfullySaved nat | NoNewAnomaliesToSave | ErrorSavingAnomalies py_error

record save_result =
  sr_success :: bool
  sr_message :: save_message
  saved_count :: nat

definition save_anomalies :: "anomaly list \<Rightarrow> anomaly_store \<Rightarrow> save_result \<times> anomaly_store" where
  "save_anomalies anomalies st =
     (if anomalies = [] then
        (\<lparr>sr_success = True, sr_message = NoAnomaliesToSave, saved_count = 0\<rparr>, st)
      else
        let unique_anomalies = remove_duplicates {} anomalies in
        if unique_anomalies \<noteq> [] then
          (case insert_many unique_anomalies st of
             Inl e \<Rightarrow>
               (\<lparr>sr_success = False, sr_message = ErrorSavingAnomalies e, saved_count = 0\<rparr>, st)
           | Inr (st', inserted) \<Rightarrow>
               (\<lparr>sr_success = True, sr_message = SuccessfullySaved inserted,
                 saved_count = inserted\<rparr>, st'))
        else
          (\<lparr>sr_success = True, sr_message = NoNewAnomaliesToSave, saved_count = 0\<rparr>, st))"

text \<open>The dictionary returned by run_full_anomaly_detection.\<close>

datatype run_result =
    Completed (total_detected: nat) (notebook_anomalies_count: nat)
      (extreme_events_count: nat) (save_result: save_result)
      (timeseries_data: "timeseries option")
  | Failed (error: py_error)

fun success :: "run_result \<Rightarrow> bool" where
  "success (Completed t n x s ts) = True"
| "success (Failed e) = False"

definition run_full_anomaly_detection ::
  "string \<Rightarrow> weather_doc list \<Rightarrow> anomaly_store \<Rightarrow> run_result \<times> anomaly_store" where
  \<comment> \<open>\<open>weather_data\<close> is the answer of the weather collection for the location, read by
      the detectors and by get_anomaly_timeseries_data\<close>
  "run_full_anomaly_detection loc weather_data st =
     (case delete_many loc st of
        Inl e \<Rightarrow> (Failed e, st)
      | Inr st1 \<Rightarrow>
         let notebook_anomalies = get_notebook_style_anomalies loc weather_data;
             extreme_events = detect_extreme_events loc weather_data;
             all_anomalies = notebook_anomalies @ extreme_events;
             (saved, st2) = save_anomalies all_anomalies st1;
             timeseries_data = get_anomaly_timeseries_data loc weather_data
         in (Completed (length all_anomalies) (length notebook_anomalies)
               (length extreme_events) saved timeseries_data, st2))"

subsection \<open>What the extreme-event detector is meant to emit\<close>

text \<open>The three variables the detector looks at, with the extreme it searches.\<close>

datatype extreme_kind = RecordHigh | RecordLow | RecordPrecipitation

fun kind_field :: "extreme_kind \<Rightarrow> weather_doc \<Rightarrow> real" where
  "kind_field RecordHigh = tasmax_avg"
| "kind_field RecordLow = tasmin_avg"
| "kind_field RecordPrecipitation = pr_total"

fun kind_extreme :: "extreme_kind \<Rightarrow> real list \<Rightarrow> real" where
  "kind_extreme RecordHigh vals = Max (set vals)"
| "kind_extreme RecordLow vals = Min (set vals)"
| "kind_extreme RecordPrecipitation vals = Max (set vals)"

fun extreme_event_of :: "description \<Rightarrow> (extreme_kind \<times> int) option" where
  \<comment> \<open>the variable and the month an extreme-event description speaks of\<close>
  "extreme_event_of (RecordHighTemperatureText m v y z) = Some (RecordHigh, m)"
| "extreme_event_of (RecordLowTemperatureText m v y z) = Some (RecordLow, m)"
| "extreme_event_of (RecordHighPrecipitationText m v y z) = Some (RecordPrecipitation, m)"
| "extreme_event_of d = None"

definition extreme_hit ::
  "string \<Rightarrow> int \<Rightarrow> weather_doc list \<Rightarrow> extreme_kind \<Rightarrow> weather_doc \<Rightarrow> anomaly list" where
  \<comment> \<open>the anomaly one check is meant to append for a record: the record holds the extreme
      of the month and the z-score of the extreme is at least 2 in absolute value\<close>
  "extreme_hit loc m records k rcd =
     (let vals = map (kind_field k) records;
          extreme = kind_extreme k vals;
          z = (extreme - mean_of vals) / sample_std vals
      in if kind_field k rcd = extreme \<and> 2.0 \<le> \<bar>z\<bar>
         then [Anomaly (w_id rcd)
                 (case k of RecordPrecipitation \<Rightarrow> PRECIPITATION | _ \<Rightarrow> TEMPERATURE)
                 EXTREME extreme (Fin (mean_of vals)) (Fin (extreme - mean_of vals)) (Fin z)
                 ((case k of RecordHigh \<Rightarrow> RecordHighTemperatureText
                           | RecordLow \<Rightarrow> RecordLowTemperatureText
                           | RecordPrecipitation \<Rightarrow> RecordHighPrecipitationText)
                    m extreme (w_year rcd) z)
                 loc]
         else [])"

definition expected_extreme_events :: "string \<Rightarrow> weather_doc list \<Rightarrow> anomaly list" where
  "expected_extreme_events loc wd =
     concat (map (\<lambda>entry.
        if length (snd entry) < 10 then []
        else concat (map (\<lambda>rcd. extreme_hit loc (fst entry) (snd entry) RecordHigh rcd
                              @ extreme_hit loc (fst entry) (snd entry) RecordLow rcd
                              @ extreme_hit loc (fst entry) (snd entry) RecordPrecipitation rcd)
                       (snd entry)))
       (monthly_records wd))"

subsection \<open>What the moving-average detector is meant to flag\<close>

text \<open>
  The average-temperature series, the window centered at an index and clamped to the
  bounds of the series, the z-score of the value at the index against the mean and the
  standard deviation of its window, and the anomaly a flagged index gives.
\<close>

definition tas_values :: "weather_doc list \<Rightarrow> real list" where
  "tas_values wd = map (\<lambda>d. case tas_avg d of None \<Rightarrow> 0 | Some v \<Rightarrow> v) wd"

definition centered_window :: "real list \<Rightarrow> nat \<Rightarrow> nat \<Rightarrow> real list" where
  \<comment> \<open>the values at the indices from \<open>i - w div 2\<close> to \<open>i + w div 2\<close> that exist\<close>
  "centered_window vals w i =
     map (\<lambda>j. vals ! j) [i - w div 2 ..< min (length vals) (i + w div 2 + 1)]"

definition window_z :: "real list \<Rightarrow> nat \<Rightarrow> nat \<Rightarrow> real" where
  "window_z vals w i =
     (vals ! i - mean_of (centered_window vals w i)) / sample_std (centered_window vals w i)"

definition flagged :: "real list \<Rightarrow> nat \<Rightarrow> nat \<Rightarrow> bool" where
  "flagged vals w i \<longleftrightarrow>
     0 < sample_std (centered_window vals w i) \<and> 2.0 \<le> \<bar>window_z vals w i\<bar>"

definition moving_average_anomaly :: "string \<Rightarrow> weather_doc list \<Rightarrow> nat \<Rightarrow> nat \<Rightarrow> anomaly" where
  "moving_average_anomaly loc wd w i =
     (let vals = tas_values wd;
          ma = mean_of (centered_window vals w i);
          z = window_z vals w i
      in Anomaly (w_id (wd ! i)) TEMPERATURE (determine_severity (Fin z)) (vals ! i) (Fin ma)
           (Fin (vals ! i - ma)) (Fin z) (MovingAverageAnomalyText (vals ! i) ma z) loc)"

subsection \<open>The stored anomalies of a location\<close>

text \<open>
  The pair save_anomalies deduplicates by, what the store holds for a location, and the
  row of the scored DataFrame that belongs to a row of the DataFrame.
\<close>

definition dedup_key :: "anomaly \<Rightarrow> string \<times> WeatherDataType" where
  "dedup_key a = (weather_data_id a, anomaly_type a)"

definition persisted :: "string \<Rightarrow> anomaly_store \<Rightarrow> anomaly list" where
  \<comment> \<open>the stored anomalies of a location\<close>
  "persisted loc st = filter (\<lambda>a. location a = loc) (documents st)"

definition scored_row :: "weather_row list \<Rightarrow> weather_row \<Rightarrow> anomaly_row" where
  "scored_row df r =
     \<lparr>base = r, pr_cols = metric_cols pr df r, tasmax_cols = metric_cols tasmax df r,
      tasmin_cols = metric_cols tasmin df r\<rparr>"

subsection \<open>Example data\<close>

text \<open>
  Ten Julys of one location.  In each of the three variables the deviations from the
  monthly mean are 4, -4, 1, -1, 1, -1, 0, 0, 0, 0, so the sample standard deviation is 2
  and the first two records have z-scores 2 and -2.
\<close>

definition july_doc :: "string \<Rightarrow> int \<Rightarrow> real \<Rightarrow> weather_doc" where
  "july_doc i y v =
     \<lparr>w_id = i, w_year = y, w_month = Some 7, pr_total = v, tasmax_avg = v + 30,
      tasmin_avg = v + 10, tas_avg = Some (v + 20), w_location = ''x''\<rparr>"

definition example_docs :: "weather_doc list" where
  "example_docs =
     [july_doc ''r0'' 2000 8, july_doc ''r1'' 2001 0, july_doc ''r2'' 2002 5,
      july_doc ''r3'' 2003 3, july_doc ''r4'' 2004 5, july_doc ''r5'' 2005 3,
      july_doc ''r6'' 2006 4, july_doc ''r7'' 2007 4, july_doc ''r8'' 2008 4,
      july_doc ''r9'' 2009 4]"

text \<open>The DataFrame of the example and the anomalies the two detectors of the pipeline find in it.\<close>

definition july_row :: "string \<Rightarrow> int \<Rightarrow> real \<Rightarrow> weather_row" where
  "july_row i y v =
     \<lparr>row_id = i, date = (y, 7, 1), year = y, month = 7, pr = v, tasmax = v + 30,
      tasmin = v + 10, row_location = ''x''\<rparr>"

definition example_df :: "weather_row list" where
  "example_df =
     [july_row ''r0'' 2000 8, july_row ''r1'' 2001 0, july_row ''r2'' 2002 5,
      july_row ''r3'' 2003 3, july_row ''r4'' 2004 5, july_row ''r5'' 2005 3,
      july_row ''r6'' 2006 4, july_row ''r7'' 2007 4, july_row ''r8'' 2008 4,
      july_row ''r9'' 2009 4]"

definition example_primary :: "string \<Rightarrow> int \<Rightarrow> WeatherDataType \<Rightarrow> string option \<Rightarrow> real \<Rightarrow> real \<Rightarrow> real
   \<Rightarrow> (int \<Rightarrow> int \<Rightarrow> real \<Rightarrow> pfloat \<Rightarrow> pfloat \<Rightarrow> pfloat \<Rightarrow> description) \<Rightarrow> anomaly" where
  "example_primary i y ty mt v b z text =
     \<lparr>weather_data_id = i, anomaly_type = ty, severity = HIGH, anomaly_value = v,
      expected_value = Fin b, deviation = Fin (v - b), z_score = Fin z,
      description = text y 7 v (Fin b) (Fin (v - b)) (Fin z),
      location = ''x'', monthly_historical_avg = Some (Fin b),
      monthly_anomaly_std = Some (Fin 2), is_significant = Some True, metric_type = mt\<rparr>"

definition example_notebook_anomalies :: "anomaly list" where
  "example_notebook_anomalies =
     [example_primary ''r0'' 2000 PRECIPITATION None 8 4 2 PrecipitationAnomalyText,
      example_primary ''r0'' 2000 TEMPERATURE (Some ''tasmax'') 38 34 2 MaximumTemperatureAnomalyText,
      example_primary ''r0'' 2000 TEMPERATURE (Some ''tasmin'') 18 14 2 MinimumTemperatureAnomalyText,
      example_primary ''r1'' 2001 PRECIPITATION None 0 4 (- 2) PrecipitationAnomalyText,
      example_primary ''r1'' 2001 TEMPERATURE (Some ''tasmax'') 30 34 (- 2) MaximumTemperatureAnomalyText,
      example_primary ''r1'' 2001 TEMPERATURE (Some ''tasmin'') 10 14 (- 2) MinimumTemperatureAnomalyText]"

definition example_extreme_events :: "anomaly list" where
  "example_extreme_events =
     [Anomaly ''r0'' TEMPERATURE EXTREME 38 (Fin 34) (Fin 4) (Fin 2)
        (RecordHighTemperatureText 7 38 2000 2) ''x'',
      Anomaly ''r0'' PRECIPITATION EXTREME 8 (Fin 4) (Fin 4) (Fin 2)
        (RecordHighPrecipitationText 7 8 2000 2) ''x'',
      Anomaly ''r1'' TEMPERATURE EXTREME 10 (Fin 14) (Fin (- 4)) (Fin (- 2))
        (RecordLowTemperatureText 7 10 2001 (- 2)) ''x'']"

text \<open>
  Thirteen records for the moving-average detector with a window of 6: the window of
  index 6 holds 0, 0, 1, 3, 1, 1, 1, with mean 1 and standard deviation 1.
\<close>

definition tas_doc :: "string \<Rightarrow> real \<Rightarrow> weather_doc" where
  "tas_doc i v =
     \<lparr>w_id = i, w_year = 2000, w_month = Some 1, pr_total = 0, tasmax_avg = v,
      tasmin_avg = v, tas_avg = Some v, w_location = ''x''\<rparr>"

definition ma_docs :: "weather_doc list" where
  "ma_docs =
     [tas_doc ''m0'' 1, tas_doc ''m1'' 1, tas_doc ''m2'' 1, tas_doc ''m3'' 0, tas_doc ''m4'' 0,
      tas_doc ''m5'' 1, tas_doc ''m6'' 3, tas_doc ''m7'' 1, tas_doc ''m8'' 1, tas_doc ''m9'' 1,
      tas_doc ''m10'' 1, tas_doc ''m11'' 1, tas_doc ''m12'' 1]"

definition ma_example_anomaly :: anomaly where
  "ma_example_anomaly =
     Anomaly ''m6'' TEMPERATURE HIGH 3 (Fin 1) (Fin 2) (Fin 2) (MovingAverageAnomalyText 3 1 2) ''x''"

text \<open>Stores that accept or reject the calls of a run.\<close>

definition example_store :: anomaly_store where
  "example_store = \<lparr>documents = [], rejects_delete = False, rejects_insert = False\<rparr>"

definition rejecting_store :: "bool \<Rightarrow> bool \<Rightarrow> anomaly_store" where
  "rejecting_store del ins =
     \<lparr>documents = [ma_example_anomaly], rejects_delete = del, rejects_insert = ins\<rparr>"

text \<open>
  Three dry Julys: the precipitation is the binary64 number nearest to 0.1 in each of
  them.  The float mean of the three is the next binary64 number, 0.10000000000000002.
\<close>

definition tenth :: real where
  "tenth = 7205759403792794 / 2 ^ 56"

definition tenth_ulp :: real where
  \<comment> \<open>the distance from \<open>tenth\<close> to the next binary64 number\<close>
  "tenth_ulp = 1 / 2 ^ 56"

definition dry_doc :: "string \<Rightarrow> int \<Rightarrow> weather_doc" where
  "dry_doc i y =
     \<lparr>w_id = i, w_year = y, w_month = Some 7, pr_total = tenth, tasmax_avg = 30,
      tasmin_avg = 10, tas_avg = Some 20, w_location = ''x''\<rparr>"

definition dry_docs :: "weather_doc list" where
  "dry_docs = [dry_doc ''d0'' 2000, dry_doc ''d1'' 2001, dry_doc ''d2'' 2002]"

definition dry_row :: "string \<Rightarrow> int \<Rightarrow> weather_row" where
  "dry_row i y =
     \<lparr>row_id = i, date = (y, 7, 1), year = y, month = 7, pr = tenth, tasmax = 30,
      tasmin = 10, row_location = ''x''\<rparr>"

definition dry_df :: "weather_row list" where
  "dry_df = [dry_row ''d0'' 2000, dry_row ''d1'' 2001, dry_row ''d2'' 2002]"

definition dry_anomaly :: "string \<Rightarrow> int \<Rightarrow> anomaly" where
  "dry_anomaly i y =
     \<lparr>weather_data_id = i, anomaly_type = PRECIPITATION, severity = EXTREME,
      anomaly_value = tenth, expected_value = Fin (tenth + tenth_ulp),
      deviation = Fin (- tenth_ulp), z_score = NInf,
      description = PrecipitationAnomalyText y 7 tenth (Fin (tenth + tenth_ulp))
        (Fin (- tenth_ulp)) NInf,
      location = ''x'', monthly_historical_avg = Some (Fin (tenth + tenth_ulp)),
      monthly_anomaly_std = Some (Fin 0), is_significant = Some True, metric_type = None\<rparr>"

text \<open>A degenerate month.\<close>

definition flat_docs :: "weather_doc list" where
  \<comment> \<open>the example with the maximum temperature of every July set to 40\<close>
  "flat_docs = map (\<lambda>d. d\<lparr>tasmax_avg := 40\<rparr>) example_docs"

section \<open>Verification\<close>

subsection \<open>The kernel never raises\<close>

lemma calculate_mean_eq: "calculate_mean vals = Inr (mean_of vals)"
  by (simp add: calculate_mean_def mean_of_def truediv_def)

lemma sum_squares_nonneg: "0 \<le> sum_list (map (\<lambda>x. (x - m)\<^sup>2) (vals :: real list))"
  by (induction vals) simp_all

lemma sample_variance_nonneg: "2 \<le> length vals \<Longrightarrow> 0 \<le> sample_variance vals"
  unfolding sample_variance_def
  by (intro divide_nonneg_nonneg sum_squares_nonneg) simp

lemma calculate_std_eq: "calculate_std vals = Inr (sample_std vals)"
proof (cases "length vals < 2")
  case True
  then show ?thesis by (simp add: calculate_std_def sample_std_def)
next
  case False
  then have len: "2 \<le> length vals" by simp
  then have nz: "real_of_int (int (length vals) - 1) \<noteq> 0" by simp
  have eq: "real_of_int (int (length vals) - 1) = real (length vals) - 1" by simp
  have "\<not> sample_variance vals < 0"
    using sample_variance_nonneg [OF len] by simp
  then show ?thesis
    using False nz
    by (simp add: calculate_std_def calculate_mean_eq truediv_def math_sqrt_def
        sample_std_def sample_variance_def eq del: of_int_diff)
qed

lemma sample_std_nonneg: "0 \<le> sample_std vals"
  by (simp add: sample_std_def sample_variance_nonneg)

text \<open>
  Claim C9.  The statistics kernel: the mean of the empty list is 0 and otherwise the
  arithmetic mean; the standard deviation of fewer than two values is 0 and otherwise
  the square root of the sum of squared deviations divided by n - 1; the z-score with a
  standard deviation of 0 is 0, and calculate_z_score returns a number on every input
  (it never raises ZeroDivisionError).
\<close>

theorem stats_kernel:
  "calculate_mean [] = Inr 0
   \<and> (vals \<noteq> [] \<longrightarrow> calculate_mean vals = Inr (sum_list vals / real (length vals)))
   \<and> (length vals < 2 \<longrightarrow> calculate_std vals = Inr 0)
   \<and> (2 \<le> length vals \<longrightarrow>
        calculate_std vals =
          Inr (sqrt (sum_list (map (\<lambda>x. (x - sum_list vals / real (length vals))\<^sup>2) vals)
                     / (real (length vals) - 1))))
   \<and> calculate_z_score val mean 0 = Inr 0
   \<and> (\<exists>z. calculate_z_score val mean std = Inr z)
   \<and> (std \<noteq> 0 \<longrightarrow> calculate_z_score val mean std = Inr ((val - mean) / std))"
proof -
  have "2 \<le> length vals \<Longrightarrow> vals \<noteq> []" by auto
  then show ?thesis
    by (auto simp: calculate_mean_eq calculate_std_eq mean_of_def sample_std_def
        sample_variance_def calculate_z_score_def truediv_def)
qed

theorem stats_kernel_witness:
  "calculate_mean [] = Inr 0
   \<and> calculate_mean [1, 3] = Inr 2
   \<and> calculate_std [5] = Inr 0
   \<and> calculate_std [1, 3] = Inr (sqrt 2)
   \<and> calculate_z_score 7 3 0 = Inr 0
   \<and> calculate_z_score 7 3 2 = Inr 2"
  using stats_kernel [of "[1, 3]" 7 3 2] stats_kernel [of "[5]" 7 3 2]
  by simp

subsection \<open>Rounding to binary64\<close>

lemma round_half_even_of_int [simp]: "round_half_even (of_int m) = m"
  by (simp add: round_half_even_def)

lemma round_half_even_numeral [simp]: "round_half_even (numeral n) = numeral n"
  using round_half_even_of_int [of "numeral n"] by simp

lemma fl_scaled:
  assumes "2 ^ 52 \<le> \<bar>q\<bar>" and "\<bar>q\<bar> < 2 ^ 53"
  shows "fl (q * 2 powr of_int j) = of_int (round_half_even q) * 2 powr of_int j"
proof -
  have q0: "q \<noteq> 0" using assms(1) by auto
  have pos: "0 < \<bar>q * 2 powr of_int j\<bar>" using q0 by simp
  have abs: "\<bar>q * 2 powr of_int j\<bar> = \<bar>q\<bar> * 2 powr of_int j" by (simp add: abs_mult)
  have "2 powr of_int (52 + j) \<le> \<bar>q\<bar> * 2 powr of_int j"
    using assms(1) by (simp add: powr_add)
  moreover have "\<bar>q\<bar> * 2 powr of_int j < 2 powr (of_int (52 + j) + 1)"
    using assms(2) by (simp add: powr_add)
  ultimately have "\<lfloor>log 2 \<bar>q * 2 powr of_int j\<bar>\<rfloor> = 52 + j"
    using floor_log_eq_powr_iff [of "\<bar>q * 2 powr of_int j\<bar>" 2 "52 + j"] pos
    by (simp add: abs)
  then show ?thesis
    using q0 by (simp add: fl_def)
qed

lemma fl_of_int:
  assumes "\<bar>n\<bar> < 2 ^ 53"
  shows "fl (of_int n) = of_int n"
proof (cases "n = 0")
  case True
  then show ?thesis by (simp add: fl_def)
next
  case False
  define k where "k = \<lfloor>log 2 \<bar>real_of_int n\<bar>\<rfloor>"
  have pos: "0 < \<bar>real_of_int n\<bar>" using False by simp
  have low: "2 powr of_int k \<le> \<bar>real_of_int n\<bar>"
    using floor_log_eq_powr_iff [of "\<bar>real_of_int n\<bar>" 2 k] pos by (simp add: k_def)
  have p53: "(2::real) powr real_of_int 53 = 2 ^ 53" by simp
  have "real_of_int \<bar>n\<bar> < real_of_int (2 ^ 53)" using assms by (simp only: of_int_less_iff)
  then have "\<bar>real_of_int n\<bar> < 2 ^ 53" by simp
  then have "(2::real) powr real_of_int k < 2 powr real_of_int 53"
    using low unfolding p53 by linarith
  then have "real_of_int k < real_of_int 53"
    by (rule powr_less_cancel) simp
  then have k: "k \<le> 52" by linarith
  define e where "e = k - 52"
  define p where "p = nat (- e)"
  have e0: "e \<le> 0" using k by (simp add: e_def)
  have pw: "(2::real) powr of_int e = inverse (2 ^ p)"
  proof (cases "e = 0")
    case True
    then show ?thesis by (simp add: p_def)
  next
    case False
    then show ?thesis
      using e0 powr_real_of_int [of 2 e] by (simp add: p_def)
  qed
  have "real_of_int n / 2 powr of_int e = of_int (n * 2 ^ p)"
    by (simp add: pw field_simps)
  then have r: "round_half_even (real_of_int n / 2 powr of_int e) = n * 2 ^ p"
    by (simp only: round_half_even_of_int)
  have "fl (of_int n) =
      of_int (round_half_even (real_of_int n / 2 powr of_int e)) * 2 powr of_int e"
    using False by (simp add: fl_def k_def [symmetric] e_def Let_def del: of_int_diff)
  then have "fl (of_int n) = of_int (n * 2 ^ p) * 2 powr of_int e"
    unfolding r .
  then have "fl (of_int n) = of_int (n * 2 ^ p) * inverse (2 ^ p)"
    unfolding pw .
  then show ?thesis by simp
qed

lemma fl_eval:
  assumes "x = q / 2 ^ j" and "2 ^ 52 \<le> \<bar>q\<bar>" and "\<bar>q\<bar> < 2 ^ 53"
    and "round_half_even q = m" and "y = of_int m / 2 ^ j"
  shows "fl x = y"
proof -
  have p: "(2::real) powr of_int (- int j) = inverse (2 ^ j)"
    by (simp add: powr_minus powr_realpow)
  have "fl (q * 2 powr of_int (- int j)) = of_int (round_half_even q) * 2 powr of_int (- int j)"
    using assms(2,3) by (rule fl_scaled)
  then show ?thesis
    unfolding p assms(1,4,5) by (simp only: divide_inverse)
qed

lemma fl_numeral [simp]: "numeral n < (2::int) ^ 53 \<Longrightarrow> fl (numeral n) = numeral n"
  using fl_of_int [of "numeral n"] by simp

lemma fl_neg_numeral [simp]: "numeral n < (2::int) ^ 53 \<Longrightarrow> fl (- numeral n) = - numeral n"
  using fl_of_int [of "- numeral n"] by simp

lemma fl_zero [simp]: "fl 0 = 0"
  by (simp add: fl_def)

lemma fl_one [simp]: "fl 1 = 1"
  using fl_of_int [of 1] by simp

subsection \<open>The z-score scorer\<close>

lemma groupby_agg_lookup:
  "map_of (groupby_agg agg kvs) m =
     (if m \<in> fst ` set kvs then Some (agg (map snd (filter (\<lambda>kv. fst kv = m) kvs))) else None)"
  by (simp add: groupby_agg_def map_of_map_restrict restrict_map_def)

lemma group_values:
  "map snd (filter (\<lambda>kv. fst kv = m) (map (\<lambda>r. (month r, f r)) df))
     = map f (filter (\<lambda>r. month r = m) df)"
  by (induction df) simp_all

lemma monthly_avg_of_row:
  assumes "r \<in> set df"
  shows "col_monthly_avg_historical col df r = Fin (baseline col df (month r))"
proof -
  have "month r \<in> fst ` set (map (\<lambda>r. (month r, col r)) df)"
    using assms by force
  moreover have "month_group df (month r) \<noteq> []"
    using assms by (auto simp: month_group_def filter_empty_conv)
  ultimately show ?thesis
    by (simp add: col_monthly_avg_historical_def calculate_monthly_historical_averages_def
        merge_left_def groupby_agg_lookup group_values pd_mean_def baseline_def month_group_def)
qed

lemma anomaly_of_row:
  "r \<in> set df \<Longrightarrow> col_anomaly col df r = Fin (col r - baseline col df (month r))"
  by (simp add: col_anomaly_def monthly_avg_of_row)

lemma group_anomalies:
  "map (col_anomaly col df) (month_group df m) = map Fin (deviations col df m)"
  by (simp add: deviations_def month_group_def anomaly_of_row)

lemma finite_part_Fin [simp]: "finite_part (map Fin ds) = ds"
  by (induction ds) simp_all

lemma pd_std_Fin:
  "pd_std (map Fin ds) = (if length ds < 2 then NaN else Fin (sqrt (sample_variance ds)))"
proof -
  have "filter (\<lambda>x. \<not> isna x) (map Fin ds) = map Fin ds"
    by (induction ds) simp_all
  then show ?thesis
    by (auto simp: pd_std_def Let_def)
qed

lemma anomaly_std_of_row:
  assumes "r \<in> set df"
  shows "col_anomaly_std col df r =
           (if length (month_group df (month r)) < 2 then NaN
            else Fin (sqrt (sample_variance (deviations col df (month r)))))"
proof -
  have "month r \<in> fst ` set (map (\<lambda>x. (month x, col_anomaly col df x)) df)"
    using assms by force
  then have "col_anomaly_std col df r
      = pd_std (map (col_anomaly col df) (month_group df (month r)))"
    by (simp add: col_anomaly_std_def merge_left_def groupby_agg_lookup group_values
        month_group_def)
  also have "\<dots> = pd_std (map Fin (deviations col df (month r)))"
    by (simp only: group_anomalies)
  also have "\<dots> = (if length (month_group df (month r)) < 2 then NaN
            else Fin (sqrt (sample_variance (deviations col df (month r)))))"
    by (simp only: pd_std_Fin) (simp add: deviations_def)
  finally show ?thesis .
qed

lemma sample_std_sqrt: "2 \<le> length ds \<Longrightarrow> sqrt (sample_variance ds) = sample_std ds"
  by (simp add: sample_std_def)

lemma zscore_of_row:
  assumes r: "r \<in> set df"
  shows "col_anomaly_zscore_raw col df r =
           pf_div (Fin (col r - baseline col df (month r)))
             (if length (month_group df (month r)) < 2 then NaN
              else Fin (sample_std (deviations col df (month r))))"
proof -
  have "length (deviations col df (month r)) = length (month_group df (month r))"
    by (simp add: deviations_def)
  then show ?thesis
    by (simp add: col_anomaly_zscore_raw_def anomaly_of_row [OF r] anomaly_std_of_row [OF r]
        sample_std_sqrt)
qed

text \<open>
  Where the month has at least two rows and the standard deviation of its deviations is
  not 0, the z-score is the deviation divided by that standard deviation and the row is
  significant exactly when its absolute value is at least 2; a month of one row has the
  z-score 0 and is not significant.
\<close>

lemma zscore_regular:
  assumes "r \<in> set df" and "2 \<le> length (month_group df (month r))"
    and "sample_std (deviations col df (month r)) \<noteq> 0"
  shows "col_anomaly_zscore col df r =
           Fin ((col r - baseline col df (month r)) / sample_std (deviations col df (month r)))"
    and "col_anomaly_significant col df r \<longleftrightarrow>
           2.0 \<le> \<bar>(col r - baseline col df (month r)) / sample_std (deviations col df (month r))\<bar>"
  using assms(2,3)
  by (simp_all add: col_anomaly_zscore_def col_anomaly_significant_def zscore_threshold_def
      zscore_of_row [OF assms(1)])

lemma zscore_single:
  assumes "r \<in> set df" and "length (month_group df (month r)) < 2"
  shows "col_anomaly_zscore col df r = Fin 0" and "\<not> col_anomaly_significant col df r"
  using assms(2)
  by (simp_all add: col_anomaly_zscore_def col_anomaly_significant_def zscore_threshold_def
      zscore_of_row [OF assms(1)])

subsection \<open>Loops with exceptions\<close>

lemma traverse_Inr_D:
  "traverse f xs = Inr ys \<Longrightarrow> list_all2 (\<lambda>x y. f x = Inr y) xs ys"
  by (induction xs arbitrary: ys) (auto split: sum.splits)

lemma traverse_Inr_I:
  "(\<And>x. x \<in> set xs \<Longrightarrow> f x = Inr (g x)) \<Longrightarrow> traverse f xs = Inr (map g xs)"
  by (induction xs) simp_all

lemma traverse_Inl_I:
  "x \<in> set xs \<Longrightarrow> f x = Inl e \<Longrightarrow> \<exists>e'. traverse f xs = Inl e'"
  by (induction xs) (auto split: sum.splits)

lemma collect_Inr_I:
  "(\<And>x. x \<in> set xs \<Longrightarrow> f x = Inr (g x)) \<Longrightarrow> collect f xs = Inr (concat (map g xs))"
  by (simp add: collect_def traverse_Inr_I)

lemma collect_Inl_I:
  "x \<in> set xs \<Longrightarrow> f x = Inl e \<Longrightarrow> \<exists>e'. collect f xs = Inl e'"
  using traverse_Inl_I [of x xs f e] by (auto simp: collect_def)

lemma traverse_member:
  "traverse f xs = Inr yss \<Longrightarrow> zs \<in> set yss \<Longrightarrow> \<exists>x \<in> set xs. f x = Inr zs"
  by (induction xs arbitrary: yss) (auto split: sum.splits)

lemma collect_member:
  assumes "collect f xs = Inr ys" and "a \<in> set ys"
  shows "\<exists>x \<in> set xs. \<exists>zs. f x = Inr zs \<and> a \<in> set zs"
proof -
  obtain yss where t: "traverse f xs = Inr yss" and ys: "ys = concat yss"
    using assms(1) by (auto simp: collect_def split: sum.splits)
  from assms(2) ys obtain zs where zs: "zs \<in> set yss" "a \<in> set zs" by auto
  from traverse_member [OF t zs(1)] zs(2) show ?thesis by blast
qed

lemma seq_append_member:
  "seq_append p q = Inr ys \<Longrightarrow> a \<in> set ys \<Longrightarrow>
     (\<exists>zs. p = Inr zs \<and> a \<in> set zs) \<or> (\<exists>zs. q = Inr zs \<and> a \<in> set zs)"
  by (cases p; cases q) auto

subsection \<open>Severity\<close>

lemma determine_severity_Fin:
  "determine_severity (Fin z) =
     (if 2.5 \<le> \<bar>z\<bar> then EXTREME else if 2.0 \<le> \<bar>z\<bar> then HIGH
      else if 1.5 \<le> \<bar>z\<bar> then MEDIUM else LOW)"
  by (simp add: determine_severity_def)

lemma significant_filled:
  "pf_ge (pf_abs x) c \<Longrightarrow> fillna 0 x = x \<and> \<not> isna x"
  by (cases x) simp_all

lemma significant_stored:
  assumes "col_anomaly_significant col df r"
  shows "col_anomaly_zscore col df r = col_anomaly_zscore_raw col df r"
    and "pf_ge (pf_abs (col_anomaly_zscore col df r)) 2"
proof -
  have raw: "pf_ge (pf_abs (col_anomaly_zscore_raw col df r)) 2"
    using assms by (simp add: col_anomaly_significant_def zscore_threshold_def)
  from significant_filled [OF this]
  show "col_anomaly_zscore col df r = col_anomaly_zscore_raw col df r"
    by (simp add: col_anomaly_zscore_def)
  with raw show "pf_ge (pf_abs (col_anomaly_zscore col df r)) 2" by simp
qed

lemma determine_severity_significant:
  "pf_ge (pf_abs z) 2 \<Longrightarrow> determine_severity z = HIGH \<or> determine_severity z = EXTREME"
  by (cases z) (simp_all add: determine_severity_def Let_def)

lemma notebook_anomaly_cases:
  assumes "a \<in> set (get_notebook_style_anomalies loc wd)"
  obtains r where "r \<in> set (get_weather_dataframe loc wd)"
    and "(col_anomaly_significant pr (get_weather_dataframe loc wd) r
          \<and> a = precipitation_anomaly loc
                 \<lparr>base = r, pr_cols = metric_cols pr (get_weather_dataframe loc wd) r,
                  tasmax_cols = metric_cols tasmax (get_weather_dataframe loc wd) r,
                  tasmin_cols = metric_cols tasmin (get_weather_dataframe loc wd) r\<rparr>)
       \<or> (col_anomaly_significant tasmax (get_weather_dataframe loc wd) r
          \<and> a = maximum_temperature_anomaly loc
                 \<lparr>base = r, pr_cols = metric_cols pr (get_weather_dataframe loc wd) r,
                  tasmax_cols = metric_cols tasmax (get_weather_dataframe loc wd) r,
                  tasmin_cols = metric_cols tasmin (get_weather_dataframe loc wd) r\<rparr>)
       \<or> (col_anomaly_significant tasmin (get_weather_dataframe loc wd) r
          \<and> a = minimum_temperature_anomaly loc
                 \<lparr>base = r, pr_cols = metric_cols pr (get_weather_dataframe loc wd) r,
                  tasmax_cols = metric_cols tasmax (get_weather_dataframe loc wd) r,
                  tasmin_cols = metric_cols tasmin (get_weather_dataframe loc wd) r\<rparr>)"
proof -
  from assms obtain r where "r \<in> set (get_weather_dataframe loc wd)"
    and "a \<in> set (row_anomalies loc
                 \<lparr>base = r, pr_cols = metric_cols pr (get_weather_dataframe loc wd) r,
                  tasmax_cols = metric_cols tasmax (get_weather_dataframe loc wd) r,
                  tasmin_cols = metric_cols tasmin (get_weather_dataframe loc wd) r\<rparr>)"
    by (auto simp: get_notebook_style_anomalies_def Let_def calculate_anomalies_with_zscores_def
        split: if_splits)
  then show ?thesis
    by (intro that [of r]) (auto simp: row_anomalies_def metric_cols_def split: if_splits)
qed

lemma notebook_anomaly_severity:
  assumes "a \<in> set (get_notebook_style_anomalies loc wd)"
  shows "severity a = determine_severity (z_score a) \<and> pf_ge (pf_abs (z_score a)) 2"
  using assms
proof (cases rule: notebook_anomaly_cases)
  case (1 r)
  then show ?thesis
    using significant_stored(2) [of pr "get_weather_dataframe loc wd" r]
      significant_stored(2) [of tasmax "get_weather_dataframe loc wd" r]
      significant_stored(2) [of tasmin "get_weather_dataframe loc wd" r]
    by (auto simp: precipitation_anomaly_def maximum_temperature_anomaly_def
        minimum_temperature_anomaly_def Anomaly_def Let_def metric_cols_def)
qed

text \<open>
  Claim C2.  The severity is a function of the absolute z-score alone (the classifier has
  no other argument): extreme from 2.5, high from 2.0, medium from 1.5, low below; an
  infinite z-score is extreme and an undefined one low.  Every anomaly of the primary path
  carries the severity the classifier gives its stored z-score, that z-score has an
  absolute value of at least 2 (it may be infinite), and so the severity is high or
  extreme.
\<close>

theorem severity_classification:
  "determine_severity (Fin z) =
     (if 2.5 \<le> \<bar>z\<bar> then EXTREME else if 2.0 \<le> \<bar>z\<bar> then HIGH
      else if 1.5 \<le> \<bar>z\<bar> then MEDIUM else LOW)
   \<and> determine_severity PInf = EXTREME \<and> determine_severity NInf = EXTREME
   \<and> determine_severity NaN = LOW
   \<and> determine_severity x = determine_severity (pf_abs x)
   \<and> (\<forall>a \<in> set (get_notebook_style_anomalies loc wd).
         severity a = determine_severity (z_score a)
         \<and> pf_ge (pf_abs (z_score a)) 2.0
         \<and> (severity a = HIGH \<or> severity a = EXTREME))"
proof -
  have "determine_severity x = determine_severity (pf_abs x)"
    by (cases x) (simp_all add: determine_severity_def)
  moreover have "severity a = HIGH \<or> severity a = EXTREME"
    if "a \<in> set (get_notebook_style_anomalies loc wd)" for a
    using notebook_anomaly_severity [OF that] determine_severity_significant [of "z_score a"]
    by simp
  ultimately show ?thesis
    using notebook_anomaly_severity [of _ loc wd]
    by (simp add: determine_severity_def)
qed

subsection \<open>Grouping by month\<close>

lemma add_record_keys: "fst ` set (add_record acc m r) = insert m (fst ` set acc)"
  by (induction acc m r rule: add_record.induct) auto

lemma add_record_distinct:
  "distinct (map fst acc) \<Longrightarrow> distinct (map fst (add_record acc m r))"
proof (induction acc m r rule: add_record.induct)
  case (1 m r)
  then show ?case by simp
next
  case (2 k rs rest m r)
  then show ?case
    using add_record_keys [of rest m r] by (auto simp: image_iff)
qed

lemma add_record_lookup:
  "distinct (map fst acc) \<Longrightarrow>
   map_of (add_record acc m r) k =
     (if k = m then Some ((case map_of acc m of None \<Rightarrow> [] | Some rs \<Rightarrow> rs) @ [r])
      else map_of acc k)"
  by (induction acc m r rule: add_record.induct) (auto simp: map_of_eq_None_iff image_iff)

lemma monthly_records_snoc:
  "monthly_records (wd @ [r]) = add_record (monthly_records wd) (get_month r) r"
  by (simp add: monthly_records_def)

lemma monthly_records_distinct: "distinct (map fst (monthly_records wd))"
proof (induction wd rule: rev_induct)
  case Nil
  then show ?case by (simp add: monthly_records_def)
next
  case (snoc r wd)
  then show ?case by (simp add: monthly_records_snoc add_record_distinct)
qed

lemma monthly_records_lookup:
  "map_of (monthly_records wd) m =
     (if m \<in> get_month ` set wd then Some (filter (\<lambda>r. get_month r = m) wd) else None)"
proof (induction wd rule: rev_induct)
  case Nil
  then show ?case by (simp add: monthly_records_def)
next
  case (snoc r wd)
  have nil: "filter (\<lambda>x. get_month x = k) wd = []" if "k \<notin> get_month ` set wd" for k
    using that by (auto simp: filter_empty_conv)
  show ?case
    using snoc nil
    by (auto simp: monthly_records_snoc add_record_lookup monthly_records_distinct)
qed

lemma monthly_records_entry:
  "(m, records) \<in> set (monthly_records wd) \<longleftrightarrow>
     m \<in> get_month ` set wd \<and> records = filter (\<lambda>r. get_month r = m) wd"
proof -
  have "(m, records) \<in> set (monthly_records wd) \<longleftrightarrow> map_of (monthly_records wd) m = Some records"
    using monthly_records_distinct [of wd] by simp
  then show ?thesis by (auto simp: monthly_records_lookup)
qed

subsection \<open>The unguarded division of the extreme-event detector\<close>

lemma extreme_z_score_eq:
  "extreme_z_score extreme vals = truediv (extreme - mean_of vals) (sample_std vals)"
  by (simp add: extreme_z_score_def calculate_mean_eq calculate_std_eq)

lemma extreme_check_raises:
  "sample_std vals = 0 \<Longrightarrow> field record = extreme \<Longrightarrow>
   extreme_check loc ty text field vals extreme record = Inl ZeroDivisionError"
  by (simp add: extreme_check_def extreme_z_score_eq truediv_def)

lemma extreme_check_error:
  "extreme_check loc ty text field vals extreme record = Inl e \<Longrightarrow> e = ZeroDivisionError"
  by (auto simp: extreme_check_def extreme_z_score_eq truediv_def calculate_mean_eq
      split: if_splits)

lemma seq_append_Inl_iff:
  "(seq_append p q = Inl e) \<longleftrightarrow> (p = Inl e \<or> (\<exists>xs. p = Inr xs) \<and> q = Inl e)"
  by (cases p; cases q) auto

lemma record_checks_error:
  "record_checks loc m records record = Inl e \<Longrightarrow> e = ZeroDivisionError"
  by (auto simp: record_checks_def Let_def seq_append_Inl_iff dest: extreme_check_error)

lemma traverse_error:
  "(\<And>x e. f x = Inl e \<Longrightarrow> e = c) \<Longrightarrow> traverse f xs = Inl e \<Longrightarrow> e = c"
  by (induction xs) (auto split: sum.splits)

lemma collect_error:
  "(\<And>x e. f x = Inl e \<Longrightarrow> e = c) \<Longrightarrow> collect f xs = Inl e \<Longrightarrow> e = c"
  using traverse_error [of f c xs] by (auto simp: collect_def split: sum.splits)

lemma month_extremes_error:
  "month_extremes loc entry = Inl e \<Longrightarrow> e = ZeroDivisionError"
proof -
  assume a: "month_extremes loc entry = Inl e"
  have "e' = ZeroDivisionError"
    if "collect (record_checks loc (fst entry) (snd entry)) (snd entry) = Inl e'" for e'
    using that by (rule collect_error [rotated]) (rule record_checks_error)
  then show ?thesis
    using a by (auto simp: month_extremes_def Let_def split: if_splits)
qed

lemma detect_extreme_events_try_error:
  "detect_extreme_events_try loc wd = Inl e \<Longrightarrow> e = ZeroDivisionError"
proof -
  assume a: "detect_extreme_events_try loc wd = Inl e"
  have "e' = ZeroDivisionError"
    if "collect (month_extremes loc) (monthly_records wd) = Inl e'" for e'
    using that by (rule collect_error [rotated]) (rule month_extremes_error)
  then show ?thesis
    using a by (auto simp: detect_extreme_events_try_def split: if_splits)
qed

lemma record_checks_raises:
  assumes "sample_std (map (kind_field k) records) = 0"
    and "kind_field k record = kind_extreme k (map (kind_field k) records)"
  shows "record_checks loc m records record = Inl ZeroDivisionError"
proof -
  have "\<exists>e. record_checks loc m records record = Inl e"
  proof (cases k)
    case RecordHigh
    then show ?thesis
      using assms by (simp add: record_checks_def Let_def extreme_check_raises)
  next
    case RecordLow
    then have "extreme_check loc TEMPERATURE (RecordLowTemperatureText m) tasmin_avg
        (map tasmin_avg records) (Min (set (map tasmin_avg records))) record = Inl ZeroDivisionError"
      using assms by (simp add: extreme_check_raises)
    then show ?thesis
      by (cases "extreme_check loc TEMPERATURE (RecordHighTemperatureText m) tasmax_avg
        (map tasmax_avg records) (Max (set (map tasmax_avg records))) record")
        (simp_all add: record_checks_def Let_def)
  next
    case RecordPrecipitation
    then have "extreme_check loc PRECIPITATION (RecordHighPrecipitationText m) pr_total
        (map pr_total records) (Max (set (map pr_total records))) record = Inl ZeroDivisionError"
      using assms by (simp add: extreme_check_raises)
    then show ?thesis
      by (cases "extreme_check loc TEMPERATURE (RecordHighTemperatureText m) tasmax_avg
        (map tasmax_avg records) (Max (set (map tasmax_avg records))) record";
          cases "extreme_check loc TEMPERATURE (RecordLowTemperatureText m) tasmin_avg
        (map tasmin_avg records) (Min (set (map tasmin_avg records))) record")
        (simp_all add: record_checks_def Let_def)
  qed
  then show ?thesis using record_checks_error by blast
qed

lemma kind_extreme_attained:
  assumes "records \<noteq> []"
  shows "\<exists>record \<in> set records. kind_field k record = kind_extreme k (map (kind_field k) records)"
proof -
  have fin: "finite (set (map (kind_field k) records))" and ne: "set (map (kind_field k) records) \<noteq> {}"
    using assms by simp_all
  have "kind_extreme k (map (kind_field k) records) \<in> set (map (kind_field k) records)"
    using Max_in [OF fin ne] Min_in [OF fin ne] by (cases k) simp_all
  then show ?thesis by auto
qed

lemma month_extremes_raises:
  assumes "10 \<le> length records" and "sample_std (map (kind_field k) records) = 0"
  shows "month_extremes loc (m, records) = Inl ZeroDivisionError"
proof -
  have "records \<noteq> []" using assms(1) by auto
  from kind_extreme_attained [OF this, of k] obtain rcd where
    rcd: "rcd \<in> set records" "kind_field k rcd = kind_extreme k (map (kind_field k) records)"
    by blast
  have "record_checks loc m records rcd = Inl ZeroDivisionError"
    using assms(2) rcd(2) by (rule record_checks_raises)
  with rcd(1) obtain e where "collect (record_checks loc m records) records = Inl e"
    using collect_Inl_I [of rcd records "record_checks loc m records" ZeroDivisionError] by blast
  then have "month_extremes loc (m, records) = Inl e"
    using assms(1) by (simp add: month_extremes_def)
  then show ?thesis using month_extremes_error by blast
qed

lemma detect_extreme_events_try_raises:
  assumes "m \<in> get_month ` set wd"
    and "10 \<le> length (filter (\<lambda>r. get_month r = m) wd)"
    and "sample_std (map (kind_field k) (filter (\<lambda>r. get_month r = m) wd)) = 0"
  shows "detect_extreme_events_try loc wd = Inl ZeroDivisionError"
proof -
  have mem: "(m, filter (\<lambda>r. get_month r = m) wd) \<in> set (monthly_records wd)"
    using assms(1) by (simp add: monthly_records_entry)
  have "month_extremes loc (m, filter (\<lambda>r. get_month r = m) wd) = Inl ZeroDivisionError"
    using assms(2,3) by (rule month_extremes_raises)
  with mem obtain e where "collect (month_extremes loc) (monthly_records wd) = Inl e"
    using collect_Inl_I [of "(m, filter (\<lambda>r. get_month r = m) wd)" "monthly_records wd"
        "month_extremes loc" ZeroDivisionError] by blast
  moreover have "wd \<noteq> []" using assms(1) by auto
  ultimately have "detect_extreme_events_try loc wd = Inl e"
    by (simp add: detect_extreme_events_try_def)
  then show ?thesis using detect_extreme_events_try_error by blast
qed

lemma sum_list_constant: "\<forall>x \<in> set vals. x = c \<Longrightarrow> sum_list vals = real (length vals) * (c::real)"
  by (induction vals) (simp_all add: algebra_simps)

lemma sum_squares_constant:
  "\<forall>x \<in> set vals. x = c \<Longrightarrow> sum_list (map (\<lambda>x. (x - c)\<^sup>2) vals) = (0::real)"
  by (induction vals) simp_all

lemma constant_sample_std:
  assumes "\<forall>x \<in> set vals. x = c"
  shows "sample_std vals = 0"
proof (cases "length vals < 2")
  case True
  then show ?thesis by (simp add: sample_std_def)
next
  case False
  then have "vals \<noteq> []" by auto
  then have "mean_of vals = c"
    using sum_list_constant [OF assms] by (simp add: mean_of_def)
  then show ?thesis
    using sum_squares_constant [OF assms] by (simp add: sample_std_def sample_variance_def)
qed

subsection \<open>The detectors on the example data\<close>

lemma example_dataframe: "get_weather_dataframe ''x'' example_docs = example_df"
  by (simp add: get_weather_dataframe_def example_docs_def example_df_def july_doc_def
      july_row_def df_row_def py_datetime_def get_month_def)

lemma example_group: "month_group example_df 7 = example_df"
  by (simp add: month_group_def example_df_def july_row_def)

lemma example_baseline:
  "baseline pr example_df 7 = 4" "baseline tasmax example_df 7 = 34" "baseline tasmin example_df 7 = 14"
  by (simp_all add: baseline_def example_group)
     (simp_all add: example_df_def july_row_def float_mean_def float_sum_def)

lemma example_deviations:
  "deviations pr example_df 7 = [4, -4, 1, -1, 1, -1, 0, 0, 0, 0]"
  "deviations tasmax example_df 7 = [4, -4, 1, -1, 1, -1, 0, 0, 0, 0]"
  "deviations tasmin example_df 7 = [4, -4, 1, -1, 1, -1, 0, 0, 0, 0]"
  by (simp_all add: deviations_def example_group example_baseline)
     (simp_all add: example_df_def july_row_def)

lemma example_variance: "sample_variance [4, -4, 1, -1, 1, -1, 0, 0, 0, 0] = 4"
  by (simp add: sample_variance_def mean_of_def)

lemma example_std: "sample_std [4, -4, 1, -1, 1, -1, 0, 0, 0, 0] = 2"
  by (simp add: sample_std_def example_variance)

lemma example_month: "r \<in> set example_df \<Longrightarrow> month r = 7"
  by (auto simp: example_df_def july_row_def)

lemma example_metric_cols:
  assumes r: "r \<in> set example_df"
    and col: "(col, b) \<in> {(pr, 4), (tasmax, 34), (tasmin, 14)}"
  shows "metric_cols col example_df r =
    \<lparr>monthly_avg_historical_of = Fin b, anomaly_of = Fin (col r - b), anomaly_std_of = Fin 2,
     anomaly_zscore_of = Fin ((col r - b) / 2),
     anomaly_significant_of = (4 \<le> \<bar>col r - b\<bar>)\<rparr>"
proof -
  have b: "baseline col example_df 7 = b"
    and d: "deviations col example_df 7 = [4, -4, 1, -1, 1, -1, 0, 0, 0, 0]"
    using col example_baseline example_deviations by auto
  have len: "length (month_group example_df 7) = 10"
    by (simp add: example_group) (simp add: example_df_def)
  show ?thesis
    by (simp add: metric_cols_def monthly_avg_of_row [OF r] anomaly_of_row [OF r]
        anomaly_std_of_row [OF r] col_anomaly_zscore_def col_anomaly_significant_def
        zscore_of_row [OF r] example_month [OF r] b d len example_std example_variance
        zscore_threshold_def)
qed

lemma example_scored_rows:
  "calculate_anomalies_with_zscores example_df =
     map (\<lambda>r. \<lparr>base = r,
        pr_cols = \<lparr>monthly_avg_historical_of = Fin 4, anomaly_of = Fin (pr r - 4),
          anomaly_std_of = Fin 2, anomaly_zscore_of = Fin ((pr r - 4) / 2),
          anomaly_significant_of = (4 \<le> \<bar>pr r - 4\<bar>)\<rparr>,
        tasmax_cols = \<lparr>monthly_avg_historical_of = Fin 34, anomaly_of = Fin (tasmax r - 34),
          anomaly_std_of = Fin 2, anomaly_zscore_of = Fin ((tasmax r - 34) / 2),
          anomaly_significant_of = (4 \<le> \<bar>tasmax r - 34\<bar>)\<rparr>,
        tasmin_cols = \<lparr>monthly_avg_historical_of = Fin 14, anomaly_of = Fin (tasmin r - 14),
          anomaly_std_of = Fin 2, anomaly_zscore_of = Fin ((tasmin r - 14) / 2),
          anomaly_significant_of = (4 \<le> \<bar>tasmin r - 14\<bar>)\<rparr>\<rparr>) example_df"
  unfolding calculate_anomalies_with_zscores_def
  by (rule map_cong [OF refl]) (simp add: example_metric_cols)

lemma example_notebook:
  "get_notebook_style_anomalies ''x'' example_docs = example_notebook_anomalies"
  unfolding get_notebook_style_anomalies_def example_dataframe Let_def example_scored_rows
  by (simp add: example_df_def july_row_def row_anomalies_def precipitation_anomaly_def
      maximum_temperature_anomaly_def minimum_temperature_anomaly_def Anomaly_def
      determine_severity_def example_notebook_anomalies_def example_primary_def)

lemma extreme_check_regular:
  assumes "sample_std vals \<noteq> 0"
  shows "extreme_check loc ty text field vals extreme rcd =
     Inr (if field rcd = extreme \<and> 2 \<le> \<bar>(extreme - mean_of vals) / sample_std vals\<bar>
          then [Anomaly (w_id rcd) ty EXTREME extreme (Fin (mean_of vals))
                  (Fin (extreme - mean_of vals)) (Fin ((extreme - mean_of vals) / sample_std vals))
                  (text extreme (w_year rcd) ((extreme - mean_of vals) / sample_std vals)) loc]
          else [])"
  using assms
  by (simp add: extreme_check_def extreme_z_score_eq truediv_def calculate_mean_eq)

lemma example_monthly_records: "monthly_records example_docs = [(7, example_docs)]"
  by (simp add: monthly_records_def example_docs_def july_doc_def get_month_def)

lemma example_columns:
  "map pr_total example_docs = [8, 0, 5, 3, 5, 3, 4, 4, 4, 4]"
  "map tasmax_avg example_docs = [38, 30, 35, 33, 35, 33, 34, 34, 34, 34]"
  "map tasmin_avg example_docs = [18, 10, 15, 13, 15, 13, 14, 14, 14, 14]"
  by (simp_all add: example_docs_def july_doc_def)

lemma example_column_stats:
  "mean_of [8, 0, 5, 3, 5, 3, 4, 4, 4, 4] = 4"
  "mean_of [38, 30, 35, 33, 35, 33, 34, 34, 34, 34] = 34"
  "mean_of [18, 10, 15, 13, 15, 13, 14, 14, 14, 14] = 14"
  "sample_std [8, 0, 5, 3, 5, 3, 4, 4, 4, 4] = 2"
  "sample_std [38, 30, 35, 33, 35, 33, 34, 34, 34, 34] = 2"
  "sample_std [18, 10, 15, 13, 15, 13, 14, 14, 14, 14] = 2"
  by (simp_all add: sample_std_def sample_variance_def mean_of_def)

lemma example_record_checks:
  "traverse (record_checks ''x'' 7 example_docs) example_docs =
     Inr [[example_extreme_events ! 0, example_extreme_events ! 1], [example_extreme_events ! 2],
          [], [], [], [], [], [], [], []]"
  unfolding record_checks_def Let_def example_columns
  by (simp add: extreme_check_regular example_column_stats)
     (simp add: example_docs_def july_doc_def example_extreme_events_def example_column_stats)

lemma example_extreme: "detect_extreme_events ''x'' example_docs = example_extreme_events"
proof -
  have "length example_docs = 10" "example_docs \<noteq> []"
    by (simp_all add: example_docs_def)
  then show ?thesis
    by (simp add: detect_extreme_events_def detect_extreme_events_try_def
        example_monthly_records collect_def month_extremes_def example_record_checks)
       (simp add: example_extreme_events_def)
qed

subsection \<open>The scorer on three dry Julys\<close>

lemma float_sum_tenths: "float_sum [tenth, tenth, tenth] = 21617278211378384 / 2 ^ 56"
proof -
  have s1: "fl (0 + tenth) = tenth"
    by (rule fl_eval [where q = 7205759403792794 and j = 56 and m = 7205759403792794])
       (simp_all add: tenth_def)
  have s2: "fl (tenth + tenth) = 7205759403792794 / 2 ^ 55"
    by (rule fl_eval [where q = 7205759403792794 and j = 55 and m = 7205759403792794])
       (simp_all add: tenth_def)
  have s3: "fl (7205759403792794 / 2 ^ 55 + tenth) = 21617278211378384 / 2 ^ 56"
    by (rule fl_eval [where q = "21617278211378382 / 4" and j = 54 and m = 5404319552844596])
       (simp_all add: tenth_def round_half_even_def)
  show ?thesis
    unfolding float_sum_def by (simp only: foldl.simps s1 s2 s3)
qed

lemma float_mean_tenths: "float_mean [tenth, tenth, tenth] = tenth + tenth_ulp"
proof -
  have "fl (21617278211378384 / 2 ^ 56 / real (length [tenth, tenth, tenth]))
      = tenth + tenth_ulp"
    by (rule fl_eval [where q = "21617278211378384 / 3" and j = 56 and m = 7205759403792795])
       (simp_all add: round_half_even_def tenth_def tenth_ulp_def)
  then show ?thesis
    unfolding float_mean_def float_sum_tenths .
qed

lemma tenth_ulp_pos: "0 < tenth_ulp"
  by (simp add: tenth_ulp_def)

lemma dry_dataframe: "get_weather_dataframe ''x'' dry_docs = dry_df"
  by (simp add: get_weather_dataframe_def dry_docs_def dry_df_def dry_doc_def dry_row_def
      df_row_def py_datetime_def get_month_def)

lemma dry_group: "month_group dry_df 7 = dry_df"
  by (simp add: month_group_def dry_df_def dry_row_def)

lemma dry_month: "r \<in> set dry_df \<Longrightarrow> month r = 7 \<and> pr r = tenth \<and> tasmax r = 30 \<and> tasmin r = 10"
  by (auto simp: dry_df_def dry_row_def)

lemma dry_baseline:
  "baseline pr dry_df 7 = tenth + tenth_ulp"
  "baseline tasmax dry_df 7 = 30" "baseline tasmin dry_df 7 = 10"
proof -
  have "map pr dry_df = [tenth, tenth, tenth]" by (simp add: dry_df_def dry_row_def)
  then show "baseline pr dry_df 7 = tenth + tenth_ulp"
    by (simp add: baseline_def dry_group float_mean_tenths)
  show "baseline tasmax dry_df 7 = 30" "baseline tasmin dry_df 7 = 10"
    by (simp_all add: baseline_def dry_group)
       (simp_all add: dry_df_def dry_row_def float_mean_def float_sum_def)
qed

lemma dry_deviations:
  "deviations pr dry_df 7 = [- tenth_ulp, - tenth_ulp, - tenth_ulp]"
  "deviations tasmax dry_df 7 = [0, 0, 0]" "deviations tasmin dry_df 7 = [0, 0, 0]"
  by (simp_all add: deviations_def dry_group dry_baseline)
     (simp_all add: dry_df_def dry_row_def)

lemma dry_std:
  "sample_std [- tenth_ulp, - tenth_ulp, - tenth_ulp] = 0" "sample_std [0, 0, 0] = 0"
  by (rule constant_sample_std [where c = "- tenth_ulp"], simp)
     (rule constant_sample_std [where c = 0], simp)

lemma dry_metric_cols:
  assumes r: "r \<in> set dry_df"
  shows "metric_cols pr dry_df r =
      \<lparr>monthly_avg_historical_of = Fin (tenth + tenth_ulp),
       anomaly_of = Fin (- tenth_ulp), anomaly_std_of = Fin 0,
       anomaly_zscore_of = NInf, anomaly_significant_of = True\<rparr>"
    and "metric_cols tasmax dry_df r =
      \<lparr>monthly_avg_historical_of = Fin 30, anomaly_of = Fin 0, anomaly_std_of = Fin 0,
       anomaly_zscore_of = Fin 0, anomaly_significant_of = False\<rparr>"
    and "metric_cols tasmin dry_df r =
      \<lparr>monthly_avg_historical_of = Fin 10, anomaly_of = Fin 0, anomaly_std_of = Fin 0,
       anomaly_zscore_of = Fin 0, anomaly_significant_of = False\<rparr>"
proof -
  have len: "length (month_group dry_df 7) = 3"
    by (simp add: dry_group) (simp add: dry_df_def)
  have dev: "tenth_ulp \<noteq> 0" "\<not> tenth_ulp < 0"
    using tenth_ulp_pos by simp_all
  note row = dry_month [OF r]
  show "metric_cols pr dry_df r =
      \<lparr>monthly_avg_historical_of = Fin (tenth + tenth_ulp),
       anomaly_of = Fin (- tenth_ulp), anomaly_std_of = Fin 0,
       anomaly_zscore_of = NInf, anomaly_significant_of = True\<rparr>"
    using len
    by (simp add: metric_cols_def monthly_avg_of_row [OF r] anomaly_of_row [OF r]
        anomaly_std_of_row [OF r] col_anomaly_zscore_def col_anomaly_significant_def
        zscore_of_row [OF r] row dry_baseline dry_deviations dry_std dev sample_std_sqrt
        zscore_threshold_def)
  show "metric_cols tasmax dry_df r =
      \<lparr>monthly_avg_historical_of = Fin 30, anomaly_of = Fin 0, anomaly_std_of = Fin 0,
       anomaly_zscore_of = Fin 0, anomaly_significant_of = False\<rparr>"
    using len
    by (simp add: metric_cols_def monthly_avg_of_row [OF r] anomaly_of_row [OF r]
        anomaly_std_of_row [OF r] col_anomaly_zscore_def col_anomaly_significant_def
        zscore_of_row [OF r] row dry_baseline dry_deviations dry_std sample_std_sqrt
        zscore_threshold_def)
  show "metric_cols tasmin dry_df r =
      \<lparr>monthly_avg_historical_of = Fin 10, anomaly_of = Fin 0, anomaly_std_of = Fin 0,
       anomaly_zscore_of = Fin 0, anomaly_significant_of = False\<rparr>"
    using len
    by (simp add: metric_cols_def monthly_avg_of_row [OF r] anomaly_of_row [OF r]
        anomaly_std_of_row [OF r] col_anomaly_zscore_def col_anomaly_significant_def
        zscore_of_row [OF r] row dry_baseline dry_deviations dry_std sample_std_sqrt
        zscore_threshold_def)
qed

lemma dry_scored_rows:
  "calculate_anomalies_with_zscores dry_df =
     map (\<lambda>r. \<lparr>base = r,
        pr_cols = \<lparr>monthly_avg_historical_of = Fin (tenth + tenth_ulp),
          anomaly_of = Fin (- tenth_ulp), anomaly_std_of = Fin 0,
          anomaly_zscore_of = NInf, anomaly_significant_of = True\<rparr>,
        tasmax_cols = \<lparr>monthly_avg_historical_of = Fin 30, anomaly_of = Fin 0,
          anomaly_std_of = Fin 0, anomaly_zscore_of = Fin 0, anomaly_significant_of = False\<rparr>,
        tasmin_cols = \<lparr>monthly_avg_historical_of = Fin 10, anomaly_of = Fin 0,
          anomaly_std_of = Fin 0, anomaly_zscore_of = Fin 0, anomaly_significant_of = False\<rparr>\<rparr>)
       dry_df"
  unfolding calculate_anomalies_with_zscores_def
  by (rule map_cong [OF refl]) (simp add: dry_metric_cols)

lemma dry_notebook:
  "get_notebook_style_anomalies ''x'' dry_docs =
     [dry_anomaly ''d0'' 2000, dry_anomaly ''d1'' 2001, dry_anomaly ''d2'' 2002]"
  unfolding get_notebook_style_anomalies_def dry_dataframe Let_def dry_scored_rows
  by (simp add: dry_df_def dry_row_def row_anomalies_def precipitation_anomaly_def
      Anomaly_def determine_severity_def dry_anomaly_def)

text \<open>
  Claim C1.  Three Julys with a precipitation of 0.1 each: the float mean of the month is
  0.10000000000000002, so every deviation is minus 2 to the power -56 and not 0, while the standard
  deviation of the three equal deviations is 0.  The division gives minus infinity, which
  \<open>fillna(0)\<close> does not replace and whose absolute value passes the threshold: each of the
  three records is flagged and emitted, where the claim gives a z-score of 0 and no flag
  for a standard deviation of 0.
\<close>

theorem scorer_zero_std_infinite:
  "get_weather_dataframe ''x'' dry_docs = dry_df
   \<and> map pr dry_df = [tenth, tenth, tenth]
   \<and> col_monthly_avg_historical pr dry_df (dry_df ! 0) = Fin (tenth + tenth_ulp)
   \<and> col_anomaly pr dry_df (dry_df ! 0) = Fin (- tenth_ulp)
   \<and> col_anomaly_std pr dry_df (dry_df ! 0) = Fin 0
   \<and> col_anomaly_zscore pr dry_df (dry_df ! 0) = NInf
   \<and> col_anomaly_significant pr dry_df (dry_df ! 0)
   \<and> get_notebook_style_anomalies ''x'' dry_docs =
       [dry_anomaly ''d0'' 2000, dry_anomaly ''d1'' 2001, dry_anomaly ''d2'' 2002]"
proof -
  have r: "dry_df ! 0 \<in> set dry_df" by (simp add: dry_df_def)
  have vals: "map pr dry_df = [tenth, tenth, tenth]" by (simp add: dry_df_def dry_row_def)
  from dry_metric_cols(1) [OF r] have
    "col_monthly_avg_historical pr dry_df (dry_df ! 0) = Fin (tenth + tenth_ulp)"
    "col_anomaly pr dry_df (dry_df ! 0) = Fin (- tenth_ulp)"
    "col_anomaly_std pr dry_df (dry_df ! 0) = Fin 0"
    "col_anomaly_zscore pr dry_df (dry_df ! 0) = NInf"
    "col_anomaly_significant pr dry_df (dry_df ! 0)"
    by (simp_all add: metric_cols_def)
  then show ?thesis
    using dry_dataframe vals dry_notebook by simp
qed

subsection \<open>An instance of the classifier\<close>

theorem severity_classification_witness:
  "example_notebook_anomalies ! 0 \<in> set (get_notebook_style_anomalies ''x'' example_docs)
   \<and> z_score (example_notebook_anomalies ! 0) = Fin 2
   \<and> severity (example_notebook_anomalies ! 0)
       = determine_severity (z_score (example_notebook_anomalies ! 0))
   \<and> severity (example_notebook_anomalies ! 0) = HIGH
   \<and> dry_anomaly ''d0'' 2000 \<in> set (get_notebook_style_anomalies ''x'' dry_docs)
   \<and> z_score (dry_anomaly ''d0'' 2000) = NInf
   \<and> severity (dry_anomaly ''d0'' 2000) = determine_severity (z_score (dry_anomaly ''d0'' 2000))
   \<and> severity (dry_anomaly ''d0'' 2000) = EXTREME
   \<and> determine_severity (Fin 3) = EXTREME
   \<and> determine_severity (Fin (- 3)) = determine_severity (pf_abs (Fin (- 3)))"
proof -
  have mem: "example_notebook_anomalies ! 0 \<in> set (get_notebook_style_anomalies ''x'' example_docs)"
    by (simp add: example_notebook) (simp add: example_notebook_anomalies_def)
  have z: "z_score (example_notebook_anomalies ! 0) = Fin 2"
    by (simp add: example_notebook_anomalies_def example_primary_def)
  have dry: "dry_anomaly ''d0'' 2000 \<in> set (get_notebook_style_anomalies ''x'' dry_docs)"
    by (simp add: dry_notebook)
  have dz: "z_score (dry_anomaly ''d0'' 2000) = NInf"
    by (simp add: dry_anomaly_def)
  note c1 = severity_classification [of 3 "Fin (- 3)" "''x''" example_docs]
  note c2 = severity_classification [of 2 NInf "''x''" dry_docs]
  have "determine_severity (Fin 3) = EXTREME"
    and "determine_severity (Fin (- 3)) = determine_severity (pf_abs (Fin (- 3)))"
    and "severity (example_notebook_anomalies ! 0)
         = determine_severity (z_score (example_notebook_anomalies ! 0))"
    using c1 mem by simp_all
  moreover have "determine_severity (Fin 2) = HIGH" "determine_severity NInf = EXTREME"
    and "severity (dry_anomaly ''d0'' 2000) = determine_severity (z_score (dry_anomaly ''d0'' 2000))"
    using c2 dry by simp_all
  ultimately show ?thesis using mem z dry dz by simp
qed

subsection \<open>The moving-average detector\<close>

lemma py_index_in_range:
  "0 \<le> i \<Longrightarrow> i < int (length xs) \<Longrightarrow> py_index xs i = Inr (xs ! nat i)"
  by (simp add: py_index_def)

lemma py_index_past_end: "py_index xs (int (length xs)) = Inl IndexError"
  by (simp add: py_index_def)

lemma map_nth_slice:
  "b \<le> length xs \<Longrightarrow> map (\<lambda>j. xs ! j) [a ..< b] = take (b - a) (drop a xs)"
  by (rule nth_equalityI) auto

lemma window_data_centered:
  assumes "i < length vals"
  shows "window_data vals (int w) (int i) = centered_window vals w i"
proof -
  let ?n = "length vals"
  have half: "int w div 2 = int (w div 2)" by (simp add: zdiv_int)
  have start: "max 0 (int i - int w div 2) = int (i - w div 2)"
    unfolding half by linarith
  have stop: "min (int ?n) (int i + int w div 2 + 1) = int (min ?n (i + w div 2 + 1))"
    unfolding half by linarith
  have "i - w div 2 < ?n" using assms by simp
  then have "window_data vals (int w) (int i) =
      take (min ?n (i + w div 2 + 1) - (i - w div 2)) (drop (i - w div 2) vals)"
    unfolding window_data_def Let_def start stop py_slice_def slice_bound_def
    by (simp add: nat_diff_distrib' del: of_nat_diff of_nat_min)
  then show ?thesis
    by (simp add: centered_window_def map_nth_slice)
qed

lemma moving_stats_eq:
  "moving_stats vals W =
     Inr (map (\<lambda>i. (mean_of (window_data vals W i), sample_std (window_data vals W i)))
            (map int [0 ..< length vals]))"
  unfolding moving_stats_def
  by (rule traverse_Inr_I) (simp add: window_stats_def calculate_mean_eq calculate_std_eq)

lemma traverse_tas_avg:
  "\<forall>d \<in> set wd. tas_avg d \<noteq> None \<Longrightarrow> traverse tas_avg_of wd = Inr (tas_values wd)"
  unfolding tas_values_def
  by (rule traverse_Inr_I) (auto simp: tas_avg_of_def)

lemma traverse_tas_avg_missing:
  "d \<in> set wd \<Longrightarrow> tas_avg d = None \<Longrightarrow> \<exists>e. traverse tas_avg_of wd = Inl e"
proof -
  assume "d \<in> set wd" and "tas_avg d = None"
  then have "tas_avg_of d = Inl KeyError" by (simp add: tas_avg_of_def)
  with \<open>d \<in> set wd\<close> show ?thesis by (rule traverse_Inl_I)
qed

lemma traverse_length: "traverse f xs = Inr ys \<Longrightarrow> length ys = length xs"
  by (induction xs arbitrary: ys) (auto split: sum.splits)

lemma upto_as_upt:
  "[int a .. int b - 1] = map int [a ..< b]"
  by (rule nth_equalityI) (auto simp: nat_diff_distrib')

lemma ma_check_in_range:
  fixes wd :: "weather_doc list" and w i :: nat
  defines "vals \<equiv> tas_values wd"
  defines "stats \<equiv> map (\<lambda>i. (mean_of (window_data vals (int w) i),
                              sample_std (window_data vals (int w) i)))
                      (map int [0 ..< length vals])"
  assumes i: "i < length wd"
  shows "ma_check loc wd vals (map fst stats) (map snd stats) (int i) =
           Inr (if flagged vals w i then [moving_average_anomaly loc wd w i] else [])"
proof -
  have len: "length vals = length wd" by (simp add: vals_def tas_values_def)
  have iv: "i < length vals" using i len by simp
  have fst: "map fst stats ! i = mean_of (centered_window vals w i)"
    and snd: "map snd stats ! i = sample_std (centered_window vals w i)"
    using iv by (simp_all add: stats_def window_data_centered)
  have idx: "py_index vals (int i) = Inr (vals ! i)"
    "py_index (map fst stats) (int i) = Inr (mean_of (centered_window vals w i))"
    "py_index (map snd stats) (int i) = Inr (sample_std (centered_window vals w i))"
    "py_index wd (int i) = Inr (wd ! i)"
    using iv i fst snd by (simp_all add: py_index_in_range stats_def)
  show ?thesis
    unfolding ma_check_def idx
    by (auto simp: truediv_def flagged_def window_z_def moving_average_anomaly_def Let_def
        vals_def [symmetric])
qed

lemma concat_map_flagged:
  "concat (map (\<lambda>x. if P (nat x) then [f (nat x)] else []) (map int xs)) = map f (filter P xs)"
  by (induction xs) simp_all

lemma moving_average_regular:
  assumes W: "0 \<le> W" "W \<le> int (length wd)" and tas: "\<forall>d \<in> set wd. tas_avg d \<noteq> None"
  shows "detect_moving_average_anomalies loc W wd =
           map (moving_average_anomaly loc wd (nat W))
             (filter (flagged (tas_values wd) (nat W)) [nat W ..< length wd - nat W])"
proof (cases "wd = []")
  case True
  then show ?thesis
    using W by (simp add: detect_moving_average_anomalies_def
        detect_moving_average_anomalies_try_def py_index_def)
next
  case False
  define w where "w = nat W"
  have Ww: "W = int w" using W by (simp add: w_def)
  let ?vals = "tas_values wd"
  let ?stats = "map (\<lambda>i. (mean_of (window_data ?vals (int w) i),
                          sample_std (window_data ?vals (int w) i)))
                  (map int [0 ..< length ?vals])"
  have len: "length ?vals = length wd" by (simp add: tas_values_def)
  have first: "py_index wd 0 = Inr (wd ! 0)" "tas_avg (wd ! 0) \<noteq> None"
    using False tas by (simp_all add: py_index_def)
  have range: "[int w .. int (length ?vals) - int w - 1] = map int [w ..< length wd - w]"
  proof -
    have "int (length ?vals) - int w - 1 = int (length wd - w) - 1"
      using W by (simp add: len Ww)
    then show ?thesis by (simp add: upto_as_upt)
  qed
  have body: "ma_check loc wd ?vals (map fst ?stats) (map snd ?stats) x =
      Inr (if flagged ?vals w (nat x) then [moving_average_anomaly loc wd w (nat x)] else [])"
    if "x \<in> set (map int [w ..< length wd - w])" for x
  proof -
    from that obtain i where x: "x = int i" and "i < length wd" by auto
    then show ?thesis using ma_check_in_range [of i wd loc w] by simp
  qed
  have "collect (ma_check loc wd ?vals (map fst ?stats) (map snd ?stats))
          (map int [w ..< length wd - w])
        = Inr (concat (map (\<lambda>x. if flagged ?vals w (nat x)
                                 then [moving_average_anomaly loc wd w (nat x)] else [])
                         (map int [w ..< length wd - w])))"
    by (rule collect_Inr_I) (rule body)
  also have "concat (map (\<lambda>x. if flagged ?vals w (nat x)
                                 then [moving_average_anomaly loc wd w (nat x)] else [])
                         (map int [w ..< length wd - w]))
      = map (moving_average_anomaly loc wd w) (filter (flagged ?vals w) [w ..< length wd - w])"
    by (rule concat_map_flagged)
  finally have "detect_moving_average_anomalies_try loc W wd =
      Inr (map (moving_average_anomaly loc wd w) (filter (flagged ?vals w) [w ..< length wd - w]))"
    using W first
    by (simp add: detect_moving_average_anomalies_try_def traverse_tas_avg [OF tas]
        moving_stats_eq Ww range del: of_nat_diff)
  then show ?thesis
    by (simp add: detect_moving_average_anomalies_def w_def)
qed

lemma moving_average_too_short:
  "int (length wd) < W \<Longrightarrow> detect_moving_average_anomalies loc W wd = []"
  by (simp add: detect_moving_average_anomalies_def detect_moving_average_anomalies_try_def)

lemma moving_average_field_absent:
  assumes "d \<in> set wd" and "tas_avg d = None"
  shows "detect_moving_average_anomalies loc W wd = []"
proof -
  have "wd \<noteq> []" using assms(1) by auto
  then have first: "py_index wd 0 = Inr (wd ! 0)" by (simp add: py_index_def)
  from traverse_tas_avg_missing [OF assms] obtain e where "traverse tas_avg_of wd = Inl e" ..
  then show ?thesis
    by (simp add: detect_moving_average_anomalies_def detect_moving_average_anomalies_try_def
        first)
qed

lemma moving_average_negative_window:
  assumes "W < 0"
  shows "detect_moving_average_anomalies loc W wd = []"
proof (cases "wd = []")
  case True
  then show ?thesis
    using assms by (simp add: detect_moving_average_anomalies_def
        detect_moving_average_anomalies_try_def py_index_def)
next
  case False
  then have first: "py_index wd 0 = Inr (wd ! 0)" by (simp add: py_index_def)
  have loop: "\<exists>e. collect (ma_check loc wd vals mas stds) [W .. int (length vals) - W - 1] = Inl e"
    for vals mas stds
  proof -
    have "int (length vals) \<in> set [W .. int (length vals) - W - 1]"
      using assms by simp
    moreover have "ma_check loc wd vals mas stds (int (length vals)) = Inl IndexError"
      by (simp add: ma_check_def py_index_past_end)
    ultimately show ?thesis by (rule collect_Inl_I)
  qed
  show ?thesis
  proof (cases "traverse tas_avg_of wd")
    case (Inl e)
    then show ?thesis
      by (simp add: detect_moving_average_anomalies_def detect_moving_average_anomalies_try_def
          first)
  next
    case (Inr vals)
    obtain e where "collect (ma_check loc wd vals
        (map fst (map (\<lambda>i. (mean_of (window_data vals W i), sample_std (window_data vals W i)))
                   (map int [0 ..< length vals])))
        (map snd (map (\<lambda>i. (mean_of (window_data vals W i), sample_std (window_data vals W i)))
                   (map int [0 ..< length vals]))))
        [W .. int (length vals) - W - 1] = Inl e"
      using loop by blast
    then show ?thesis
      using Inr
      by (simp add: detect_moving_average_anomalies_def detect_moving_average_anomalies_try_def
          first moving_stats_eq)
  qed
qed

lemma ma_check_member:
  assumes "ma_check loc wd vals mas stds i = Inr zs" and "a \<in> set zs"
  shows "\<exists>wid v m z. 2 \<le> \<bar>z\<bar> \<and>
           a = Anomaly wid TEMPERATURE (determine_severity (Fin z)) v (Fin m) (Fin (v - m)) (Fin z)
                 (MovingAverageAnomalyText v m z) loc"
  using assms
  by (auto simp: ma_check_def split: sum.splits if_splits) blast

lemma moving_average_member:
  assumes "a \<in> set (detect_moving_average_anomalies loc W wd)"
  shows "\<exists>wid v m z. 2 \<le> \<bar>z\<bar> \<and>
           a = Anomaly wid TEMPERATURE (determine_severity (Fin z)) v (Fin m) (Fin (v - m)) (Fin z)
                 (MovingAverageAnomalyText v m z) loc"
proof -
  from assms obtain ys where run: "detect_moving_average_anomalies_try loc W wd = Inr ys"
    and a: "a \<in> set ys"
    by (cases "detect_moving_average_anomalies_try loc W wd")
       (simp_all add: detect_moving_average_anomalies_def)
  from run a obtain vals mas stds where
    "collect (ma_check loc wd vals mas stds) [W .. int (length vals) - W - 1] = Inr ys"
    by (auto simp: detect_moving_average_anomalies_try_def split: if_splits sum.splits)
  from collect_member [OF this a] obtain i zs where
    "ma_check loc wd vals mas stds i = Inr zs" "a \<in> set zs" by blast
  then show ?thesis by (rule ma_check_member)
qed

text \<open>
  Claim C7.  The moving-average detector returns nothing when the dataset has fewer than
  W records or a record lacks the average temperature (and for a negative W); otherwise it
  returns, in order, one anomaly for exactly those indices i with W <= i < length - W at
  which the standard deviation of the centered window, clamped to the bounds, is positive
  and the z-score against that window is at least 2 in absolute value.  The severity of
  each anomaly is that of the severity table at its z-score.
\<close>

theorem moving_average_detector:
  "(int (length wd) < W \<longrightarrow> detect_moving_average_anomalies loc W wd = [])
   \<and> ((\<exists>d \<in> set wd. tas_avg d = None) \<longrightarrow> detect_moving_average_anomalies loc W wd = [])
   \<and> (W < 0 \<longrightarrow> detect_moving_average_anomalies loc W wd = [])
   \<and> (0 \<le> W \<and> W \<le> int (length wd) \<and> (\<forall>d \<in> set wd. tas_avg d \<noteq> None) \<longrightarrow>
        detect_moving_average_anomalies loc W wd =
          map (moving_average_anomaly loc wd (nat W))
            (filter (flagged (tas_values wd) (nat W)) [nat W ..< length wd - nat W]))
   \<and> (\<forall>a \<in> set (detect_moving_average_anomalies loc W wd).
        \<exists>z. z_score a = Fin z \<and> 2.0 \<le> \<bar>z\<bar> \<and> severity a = determine_severity (Fin z))"
proof -
  have "\<exists>z. z_score a = Fin z \<and> 2.0 \<le> \<bar>z\<bar> \<and> severity a = determine_severity (Fin z)"
    if "a \<in> set (detect_moving_average_anomalies loc W wd)" for a
    using moving_average_member [OF that] by (auto simp: Anomaly_def)
  then show ?thesis
    using moving_average_too_short [of wd W loc] moving_average_field_absent [of _ wd loc W]
      moving_average_negative_window [of W loc wd] moving_average_regular [of W wd loc]
    by blast
qed

lemma ma_docs_values: "tas_values ma_docs = [1, 1, 1, 0, 0, 1, 3, 1, 1, 1, 1, 1, 1]"
  by (simp add: tas_values_def ma_docs_def tas_doc_def)

lemma ma_docs_window:
  "centered_window [1, 1, 1, 0, 0, 1, 3, 1, 1, 1, 1, 1, 1] 6 6 = [0, 0, 1, 3, 1, 1, 1]"
proof -
  have "[6 - 6 div 2 ..< min 13 (6 + 6 div 2 + 1)] = [3, 4, 5, 6, 7, 8, 9::nat]"
    by (simp add: upt_rec)
  then show ?thesis by (simp add: centered_window_def)
qed

lemma ma_docs_window_stats:
  "mean_of [0, 0, 1, 3, 1, 1, 1] = 1" "sample_std [0, 0, 1, 3, 1, 1, 1] = 1"
  by (simp_all add: sample_std_def sample_variance_def mean_of_def)

theorem moving_average_detector_witness:
  "detect_moving_average_anomalies ''x'' 14 ma_docs = []
   \<and> detect_moving_average_anomalies ''x'' 6 (ma_docs @ [(tas_doc ''m13'' 1)\<lparr>tas_avg := None\<rparr>]) = []
   \<and> detect_moving_average_anomalies ''x'' (- 1) ma_docs = []
   \<and> detect_moving_average_anomalies ''x'' 6 ma_docs = [ma_example_anomaly]
   \<and> severity ma_example_anomaly = determine_severity (Fin 2)"
proof -
  have len: "length ma_docs = 13" by (simp add: ma_docs_def)
  have tas: "\<forall>d \<in> set ma_docs. tas_avg d \<noteq> None" by (simp add: ma_docs_def tas_doc_def)
  have range: "[nat 6 ..< length ma_docs - nat 6] = [6]" by (simp add: len)
  have flag: "flagged (tas_values ma_docs) 6 6"
    by (simp add: flagged_def window_z_def ma_docs_values ma_docs_window ma_docs_window_stats)
  have anomaly: "moving_average_anomaly ''x'' ma_docs 6 6 = ma_example_anomaly"
    by (simp add: moving_average_anomaly_def window_z_def ma_docs_values ma_docs_window
        ma_docs_window_stats ma_example_anomaly_def determine_severity_def)
       (simp add: ma_docs_def tas_doc_def)
  have absent: "\<exists>d \<in> set (ma_docs @ [(tas_doc ''m13'' 1)\<lparr>tas_avg := None\<rparr>]). tas_avg d = None"
    by simp
  have short: "int (length ma_docs) < 14" by (simp add: len)
  have ok: "(0::int) \<le> 6 \<and> 6 \<le> int (length ma_docs)" by (simp add: len)
  have regular: "detect_moving_average_anomalies ''x'' 6 ma_docs = [ma_example_anomaly]"
    using moving_average_detector [of ma_docs 6 "''x''"] ok tas
    by (simp only: range) (simp add: flag anomaly)
  have "severity ma_example_anomaly = determine_severity (Fin 2)"
    using moving_average_detector [of ma_docs 6 "''x''"] regular
    by (simp add: ma_example_anomaly_def Anomaly_def)
  then show ?thesis
    using moving_average_detector [of ma_docs 14 "''x''"] short
      moving_average_detector [of "ma_docs @ [(tas_doc ''m13'' 1)\<lparr>tas_avg := None\<rparr>]" 6 "''x''"] absent
      moving_average_detector [of ma_docs "- 1" "''x''"] regular
    by simp
qed

subsection \<open>The optional fields of the emitted anomalies\<close>

lemma extreme_check_member:
  assumes "extreme_check loc ty text field vals extreme rcd = Inr zs" and "a \<in> set zs"
  shows "field rcd = extreme \<and>
         (\<exists>m z. 2 \<le> \<bar>z\<bar> \<and> truediv (extreme - mean_of vals) (sample_std vals) = Inr z \<and>
            a = Anomaly (w_id rcd) ty EXTREME extreme (Fin m) (Fin (extreme - m)) (Fin z)
                  (text extreme (w_year rcd) z) loc)"
  using assms
  by (auto simp: extreme_check_def extreme_z_score_eq calculate_mean_eq
      split: sum.splits if_splits)

lemma extreme_events_member:
  assumes "a \<in> set (detect_extreme_events loc wd)"
  shows "\<exists>wid ty v m z text. 2 \<le> \<bar>z\<bar> \<and>
           a = Anomaly wid ty EXTREME v (Fin m) (Fin (v - m)) (Fin z) text loc"
proof -
  from assms obtain ys where run: "detect_extreme_events_try loc wd = Inr ys" and a: "a \<in> set ys"
    by (cases "detect_extreme_events_try loc wd") (simp_all add: detect_extreme_events_def)
  from run a have "collect (month_extremes loc) (monthly_records wd) = Inr ys"
    by (auto simp: detect_extreme_events_try_def split: if_splits)
  from collect_member [OF this a] obtain entry zs where
    "month_extremes loc entry = Inr zs" "a \<in> set zs" by blast
  then have "collect (record_checks loc (fst entry) (snd entry)) (snd entry) = Inr zs"
    by (auto simp: month_extremes_def Let_def split: if_splits)
  from collect_member [OF this \<open>a \<in> set zs\<close>] obtain rcd us where
    us: "record_checks loc (fst entry) (snd entry) rcd = Inr us" "a \<in> set us" by blast
  let ?recs = "snd entry"
  from us obtain ty descr field vals extreme vs where
    "extreme_check loc ty descr field vals extreme rcd = Inr vs" "a \<in> set vs"
    unfolding record_checks_def Let_def
    by (blast dest: seq_append_member)
  from extreme_check_member [OF this] show ?thesis by blast
qed

text \<open>
  Claim C10.  The anomalies of the extreme-event detector and of the moving-average
  detector keep the defaults of the optional fields: is_significant is False and
  monthly_historical_avg, monthly_anomaly_std and metric_type are None, although each of
  them has a z-score of absolute value at least 2.  The anomalies of the primary path have
  is_significant True and both monthly fields set; metric_type is None on a precipitation
  anomaly and 'tasmax' or 'tasmin' on a temperature anomaly.
\<close>

theorem optional_fields:
  "(\<forall>a \<in> set (detect_extreme_events loc wd).
      is_significant a = Some False \<and> monthly_historical_avg a = None
      \<and> monthly_anomaly_std a = None \<and> metric_type a = None
      \<and> (\<exists>z. z_score a = Fin z \<and> 2.0 \<le> \<bar>z\<bar>))
   \<and> (\<forall>a \<in> set (detect_moving_average_anomalies loc W wd).
      is_significant a = Some False \<and> monthly_historical_avg a = None
      \<and> monthly_anomaly_std a = None \<and> metric_type a = None
      \<and> (\<exists>z. z_score a = Fin z \<and> 2.0 \<le> \<bar>z\<bar>))
   \<and> (\<forall>a \<in> set (get_notebook_style_anomalies loc wd).
      is_significant a = Some True
      \<and> monthly_historical_avg a \<noteq> None \<and> monthly_anomaly_std a \<noteq> None
      \<and> (anomaly_type a = PRECIPITATION \<and> metric_type a = None
         \<or> anomaly_type a = TEMPERATURE
            \<and> (metric_type a = Some ''tasmax'' \<or> metric_type a = Some ''tasmin'')))"
proof (intro conjI ballI)
  fix a assume "a \<in> set (get_notebook_style_anomalies loc wd)"
  then have *: "is_significant a = Some True
      \<and> monthly_historical_avg a \<noteq> None \<and> monthly_anomaly_std a \<noteq> None
      \<and> (anomaly_type a = PRECIPITATION \<and> metric_type a = None
         \<or> anomaly_type a = TEMPERATURE
            \<and> (metric_type a = Some ''tasmax'' \<or> metric_type a = Some ''tasmin''))"
    by (cases rule: notebook_anomaly_cases)
       (auto simp: precipitation_anomaly_def maximum_temperature_anomaly_def
        minimum_temperature_anomaly_def Anomaly_def Let_def)
  from * show "is_significant a = Some True" by simp
  from * show "monthly_historical_avg a \<noteq> None" by simp
  from * show "monthly_anomaly_std a \<noteq> None" by simp
  from * show "anomaly_type a = PRECIPITATION \<and> metric_type a = None
         \<or> anomaly_type a = TEMPERATURE
            \<and> (metric_type a = Some ''tasmax'' \<or> metric_type a = Some ''tasmin'')" by simp
next
  fix a assume "a \<in> set (detect_extreme_events loc wd)"
  from extreme_events_member [OF this]
  show "is_significant a = Some False" "monthly_historical_avg a = None"
    "monthly_anomaly_std a = None" "metric_type a = None"
    "\<exists>z. z_score a = Fin z \<and> 2.0 \<le> \<bar>z\<bar>"
    by (auto simp: Anomaly_def)
next
  fix a assume "a \<in> set (detect_moving_average_anomalies loc W wd)"
  from moving_average_member [OF this]
  show "is_significant a = Some False" "monthly_historical_avg a = None"
    "monthly_anomaly_std a = None" "metric_type a = None"
    "\<exists>z. z_score a = Fin z \<and> 2.0 \<le> \<bar>z\<bar>"
    by (auto simp: Anomaly_def)
qed

lemma ma_example_run:
  "detect_moving_average_anomalies ''x'' 6 ma_docs = [ma_example_anomaly]"
proof -
  have len: "length ma_docs = 13" by (simp add: ma_docs_def)
  have tas: "\<forall>d \<in> set ma_docs. tas_avg d \<noteq> None" by (simp add: ma_docs_def tas_doc_def)
  have range: "[nat 6 ..< length ma_docs - nat 6] = [6]" by (simp add: len)
  have flag: "flagged (tas_values ma_docs) 6 6"
    by (simp add: flagged_def window_z_def ma_docs_values ma_docs_window ma_docs_window_stats)
  have anomaly: "moving_average_anomaly ''x'' ma_docs 6 6 = ma_example_anomaly"
    by (simp add: moving_average_anomaly_def window_z_def ma_docs_values ma_docs_window
        ma_docs_window_stats ma_example_anomaly_def determine_severity_def)
       (simp add: ma_docs_def tas_doc_def)
  have "detect_moving_average_anomalies ''x'' 6 ma_docs =
          map (moving_average_anomaly ''x'' ma_docs (nat 6))
            (filter (flagged (tas_values ma_docs) (nat 6)) [nat 6 ..< length ma_docs - nat 6])"
    using tas by (intro moving_average_regular) (simp_all add: len)
  then show ?thesis
    by (simp only: range) (simp add: flag anomaly)
qed

theorem optional_fields_witness:
  "example_extreme_events ! 0 \<in> set (detect_extreme_events ''x'' example_docs)
   \<and> is_significant (example_extreme_events ! 0) = Some False
   \<and> metric_type (example_extreme_events ! 0) = None
   \<and> monthly_historical_avg (example_extreme_events ! 0) = None
   \<and> monthly_anomaly_std (example_extreme_events ! 0) = None
   \<and> ma_example_anomaly \<in> set (detect_moving_average_anomalies ''x'' 6 ma_docs)
   \<and> is_significant ma_example_anomaly = Some False
   \<and> metric_type ma_example_anomaly = None
   \<and> example_notebook_anomalies ! 0 \<in> set (get_notebook_style_anomalies ''x'' example_docs)
   \<and> is_significant (example_notebook_anomalies ! 0) = Some True
   \<and> anomaly_type (example_notebook_anomalies ! 0) = PRECIPITATION
   \<and> metric_type (example_notebook_anomalies ! 0) = None"
proof -
  have e: "example_extreme_events ! 0 \<in> set (detect_extreme_events ''x'' example_docs)"
    by (simp add: example_extreme) (simp add: example_extreme_events_def)
  have n: "example_notebook_anomalies ! 0 \<in> set (get_notebook_style_anomalies ''x'' example_docs)"
    by (simp add: example_notebook) (simp add: example_notebook_anomalies_def)
  have ty: "anomaly_type (example_notebook_anomalies ! 0) = PRECIPITATION"
    by (simp add: example_notebook_anomalies_def example_primary_def)
  have "is_significant (example_notebook_anomalies ! 0) = Some True"
    and "metric_type (example_notebook_anomalies ! 0) = None"
    using optional_fields [of "''x''" example_docs 6] n ty by auto
  moreover have "is_significant (example_extreme_events ! 0) = Some False
     \<and> metric_type (example_extreme_events ! 0) = None
     \<and> monthly_historical_avg (example_extreme_events ! 0) = None
     \<and> monthly_anomaly_std (example_extreme_events ! 0) = None"
    using optional_fields [of "''x''" example_docs 6] e by blast
  moreover have m: "ma_example_anomaly \<in> set (detect_moving_average_anomalies ''x'' 6 ma_docs)"
    by (simp add: ma_example_run)
  moreover have "is_significant ma_example_anomaly = Some False
     \<and> metric_type ma_example_anomaly = None"
    using optional_fields [of "''x''" ma_docs 6] m by blast
  ultimately show ?thesis using e n ty by simp
qed

subsection \<open>Deduplication in save_anomalies\<close>

lemma find_append_cases:
  "find P (xs @ ys) = (case find P xs of None \<Rightarrow> find P ys | Some x \<Rightarrow> Some x)"
  by (induction xs) simp_all

lemma remove_duplicates_keys:
  "dedup_key ` set (remove_duplicates seen xs) \<inter> seen = {}"
  by (induction xs arbitrary: seen) (auto simp: Let_def dedup_key_def)

lemma remove_duplicates_distinct: "distinct (map dedup_key (remove_duplicates seen xs))"
proof (induction xs arbitrary: seen)
  case Nil
  then show ?case by simp
next
  case (Cons a xs)
  show ?case
    using Cons [of seen] Cons [of "insert (dedup_key a) seen"]
      remove_duplicates_keys [of "insert (dedup_key a) seen" xs]
    by (auto simp: Let_def dedup_key_def)
qed

lemma remove_duplicates_first:
  "filter (\<lambda>a. dedup_key a = k) (remove_duplicates seen xs) =
     (if k \<in> seen then []
      else case find (\<lambda>a. dedup_key a = k) xs of None \<Rightarrow> [] | Some a \<Rightarrow> [a])"
proof (induction xs arbitrary: seen)
  case Nil
  then show ?case by simp
next
  case (Cons a xs)
  have seen_empty: "filter (\<lambda>b. dedup_key b = k) (remove_duplicates s xs) = []" if "k \<in> s" for s
    using remove_duplicates_keys [of s xs] that by (auto simp: filter_empty_conv)
  show ?case
  proof (cases "dedup_key a \<in> seen")
    case True
    then show ?thesis
      using Cons [of seen] by (auto simp: Let_def dedup_key_def)
  next
    case False
    then show ?thesis
      using Cons [of "insert (dedup_key a) seen"] seen_empty [of "insert (dedup_key a) seen"]
      by (auto simp: Let_def dedup_key_def)
  qed
qed

lemma remove_duplicates_nonempty: "xs \<noteq> [] \<Longrightarrow> remove_duplicates {} xs \<noteq> []"
  by (cases xs) (simp_all add: Let_def)

subsection \<open>What a run stores\<close>

lemma notebook_location:
  "a \<in> set (get_notebook_style_anomalies loc wd) \<Longrightarrow> location a = loc"
  by (erule notebook_anomaly_cases)
     (auto simp: precipitation_anomaly_def maximum_temperature_anomaly_def
      minimum_temperature_anomaly_def Anomaly_def Let_def)

lemma extreme_location:
  "a \<in> set (detect_extreme_events loc wd) \<Longrightarrow> location a = loc"
  using extreme_events_member [of a loc wd] by (auto simp: Anomaly_def)

lemma remove_duplicates_subset: "set (remove_duplicates seen xs) \<subseteq> set xs"
  by (induction xs arbitrary: seen) (auto simp: Let_def)

lemma save_anomalies_accepted:
  "\<not> rejects_insert st \<Longrightarrow>
   documents (snd (save_anomalies anomalies st)) = documents st @ remove_duplicates {} anomalies"
  by (simp add: save_anomalies_def insert_many_def Let_def)

lemma run_accepted:
  assumes "\<not> rejects_delete st" and "\<not> rejects_insert st"
  shows "persisted loc (snd (run_full_anomaly_detection loc wd st)) =
           remove_duplicates {}
             (get_notebook_style_anomalies loc wd @ detect_extreme_events loc wd)"
proof -
  let ?all = "get_notebook_style_anomalies loc wd @ detect_extreme_events loc wd"
  let ?st1 = "st\<lparr>documents := filter (\<lambda>a. location a \<noteq> loc) (documents st)\<rparr>"
  have "\<forall>a \<in> set (remove_duplicates {} ?all). location a = loc"
    using remove_duplicates_subset [of "{}" ?all] notebook_location extreme_location by fastforce
  then have keep: "filter (\<lambda>a. location a = loc) (remove_duplicates {} ?all)
      = remove_duplicates {} ?all"
    by (simp add: filter_id_conv)
  have "snd (run_full_anomaly_detection loc wd st) = snd (save_anomalies ?all ?st1)"
    using assms(1)
    by (simp add: run_full_anomaly_detection_def delete_many_def Let_def split: prod.splits)
  moreover have "\<not> rejects_insert ?st1" using assms(2) by simp
  ultimately have "documents (snd (run_full_anomaly_detection loc wd st))
      = filter (\<lambda>a. location a \<noteq> loc) (documents st) @ remove_duplicates {} ?all"
    by (simp add: save_anomalies_accepted)
  then show ?thesis by (simp add: persisted_def keep)
qed

subsection \<open>The first temperature anomaly of a record\<close>

lemma traverse_df_row_ids:
  "traverse (df_row loc) wd = Inr rows \<Longrightarrow> map row_id rows = map w_id wd"
  by (induction wd arbitrary: rows) (auto simp: df_row_def split: sum.splits)

lemma dataframe_ids:
  "get_weather_dataframe loc wd \<noteq> [] \<Longrightarrow> map row_id (get_weather_dataframe loc wd) = map w_id wd"
  by (auto simp: get_weather_dataframe_def traverse_df_row_ids split: if_splits sum.splits)

lemma row_anomalies_id:
  "a \<in> set (row_anomalies loc (scored_row df r)) \<Longrightarrow> weather_data_id a = row_id r"
  by (auto simp: row_anomalies_def scored_row_def precipitation_anomaly_def
      maximum_temperature_anomaly_def minimum_temperature_anomaly_def Anomaly_def Let_def
      split: if_splits)

lemma row_anomalies_first_temperature:
  assumes "col_anomaly_significant tasmax df r"
  shows "find (\<lambda>a. dedup_key a = (row_id r, TEMPERATURE)) (row_anomalies loc (scored_row df r))
           = Some (maximum_temperature_anomaly loc (scored_row df r))"
proof -
  have "\<not> isna (col_anomaly_zscore tasmax df r)"
    using assms significant_filled [of "col_anomaly_zscore_raw tasmax df r" 2]
    by (simp add: col_anomaly_significant_def col_anomaly_zscore_def zscore_threshold_def)
  then show ?thesis
    using assms
    by (simp add: row_anomalies_def scored_row_def metric_cols_def dedup_key_def
        precipitation_anomaly_def maximum_temperature_anomaly_def Anomaly_def Let_def)
qed

lemma find_concat_rows:
  assumes "distinct (map row_id rows)" and "r \<in> set rows"
    and "find (\<lambda>a. dedup_key a = (row_id r, ty)) (row_anomalies loc (scored_row df r)) = Some b"
  shows "find (\<lambda>a. dedup_key a = (row_id r, ty))
           (concat (map (\<lambda>x. row_anomalies loc (scored_row df x)) rows) @ rest) = Some b"
  using assms(1,2)
proof (induction rows)
  case Nil
  then show ?case by simp
next
  case (Cons x rows)
  show ?case
  proof (cases "x = r")
    case True
    then show ?thesis using assms(3) by (simp add: find_append_cases)
  next
    case False
    then have "row_id x \<noteq> row_id r" using Cons.prems by force
    then have "find (\<lambda>a. dedup_key a = (row_id r, ty)) (row_anomalies loc (scored_row df x)) = None"
      by (auto simp: find_None_iff dedup_key_def dest: row_anomalies_id)
    moreover have "find (\<lambda>a. dedup_key a = (row_id r, ty))
           (concat (map (\<lambda>x. row_anomalies loc (scored_row df x)) rows) @ rest) = Some b"
      using False Cons by simp
    ultimately show ?thesis
      by (simp add: find_append_cases)
  qed
qed

lemma first_temperature_anomaly:
  assumes df: "df = get_weather_dataframe loc wd" and ids: "distinct (map w_id wd)"
    and r: "r \<in> set df" and sig: "col_anomaly_significant tasmax df r"
  shows "find (\<lambda>a. dedup_key a = (row_id r, TEMPERATURE))
           (get_notebook_style_anomalies loc wd @ detect_extreme_events loc wd)
         = Some (maximum_temperature_anomaly loc (scored_row df r))"
proof -
  have ne: "df \<noteq> []" using r by auto
  then have "distinct (map row_id df)"
    using ids dataframe_ids [of loc wd] by (simp add: df)
  moreover have "get_notebook_style_anomalies loc wd
      = concat (map (\<lambda>x. row_anomalies loc (scored_row df x)) df)"
    using ne by (simp add: get_notebook_style_anomalies_def df [symmetric] Let_def
        calculate_anomalies_with_zscores_def scored_row_def o_def)
  ultimately show ?thesis
    using r find_concat_rows [OF _ _ row_anomalies_first_temperature [OF sig], of df loc]
    by simp
qed

text \<open>
  Claim C3.  After a run whose storage calls are accepted, no two stored anomalies of the
  location share the pair (source record id, anomaly type); for every such pair the stored
  anomaly is the first one with that pair in the list of the primary-path anomalies
  followed by the extreme events.  With distinct record ids, a record that is significant
  on both maximum and minimum temperature has exactly one stored temperature anomaly: the
  maximum-temperature anomaly of the primary path, which is enumerated after the
  precipitation anomaly and before the minimum-temperature anomaly of the record.
\<close>

theorem dedup_persisted:
  assumes "\<not> rejects_delete st" and "\<not> rejects_insert st"
  shows "distinct (map dedup_key (persisted loc (snd (run_full_anomaly_detection loc wd st))))
     \<and> (\<forall>k. filter (\<lambda>a. dedup_key a = k)
               (persisted loc (snd (run_full_anomaly_detection loc wd st)))
             = (case find (\<lambda>a. dedup_key a = k)
                       (get_notebook_style_anomalies loc wd @ detect_extreme_events loc wd) of
                  None \<Rightarrow> [] | Some a \<Rightarrow> [a]))
     \<and> (distinct (map w_id wd) \<longrightarrow>
          (\<forall>r \<in> set (get_weather_dataframe loc wd).
             col_anomaly_significant tasmax (get_weather_dataframe loc wd) r
             \<and> col_anomaly_significant tasmin (get_weather_dataframe loc wd) r \<longrightarrow>
             filter (\<lambda>a. dedup_key a = (row_id r, TEMPERATURE))
               (persisted loc (snd (run_full_anomaly_detection loc wd st)))
             = [maximum_temperature_anomaly loc (scored_row (get_weather_dataframe loc wd) r)]))"
  by (simp add: run_accepted [OF assms] remove_duplicates_distinct remove_duplicates_first
      first_temperature_anomaly)

lemma example_significant:
  "col_anomaly_significant tasmax example_df (example_df ! 0)"
  "col_anomaly_significant tasmin example_df (example_df ! 0)"
proof -
  have r: "example_df ! 0 \<in> set example_df" by (simp add: example_df_def)
  have "anomaly_significant_of (metric_cols tasmax example_df (example_df ! 0))"
    "anomaly_significant_of (metric_cols tasmin example_df (example_df ! 0))"
    by (simp_all add: example_metric_cols [OF r, of tasmax 34]
        example_metric_cols [OF r, of tasmin 14])
       (simp_all add: example_df_def july_row_def)
  then show "col_anomaly_significant tasmax example_df (example_df ! 0)"
    "col_anomaly_significant tasmin example_df (example_df ! 0)"
    by (simp_all add: metric_cols_def)
qed

lemma example_first_temperature:
  "maximum_temperature_anomaly ''x'' (scored_row example_df (example_df ! 0))
     = example_notebook_anomalies ! 1"
proof -
  have r: "example_df ! 0 \<in> set example_df" by (simp add: example_df_def)
  show ?thesis
    by (simp add: maximum_temperature_anomaly_def scored_row_def
        example_metric_cols [OF r, of tasmax 34] Let_def Anomaly_def determine_severity_def)
       (simp add: example_df_def july_row_def example_notebook_anomalies_def example_primary_def)
qed

theorem dedup_persisted_witness:
  "\<not> rejects_delete example_store \<and> \<not> rejects_insert example_store
   \<and> distinct (map w_id example_docs)
   \<and> example_df ! 0 \<in> set (get_weather_dataframe ''x'' example_docs)
   \<and> col_anomaly_significant tasmax (get_weather_dataframe ''x'' example_docs) (example_df ! 0)
   \<and> col_anomaly_significant tasmin (get_weather_dataframe ''x'' example_docs) (example_df ! 0)
   \<and> filter (\<lambda>a. dedup_key a = (''r0'', TEMPERATURE))
        (persisted ''x'' (snd (run_full_anomaly_detection ''x'' example_docs example_store)))
      = [example_notebook_anomalies ! 1]
   \<and> distinct (map dedup_key
        (persisted ''x'' (snd (run_full_anomaly_detection ''x'' example_docs example_store))))"
proof -
  have st: "\<not> rejects_delete example_store" "\<not> rejects_insert example_store"
    by (simp_all add: example_store_def)
  have ids: "distinct (map w_id example_docs)"
    by (simp add: example_docs_def july_doc_def)
  have r: "example_df ! 0 \<in> set (get_weather_dataframe ''x'' example_docs)"
    by (simp add: example_dataframe) (simp add: example_df_def)
  have id: "row_id (example_df ! 0) = ''r0''"
    by (simp add: example_df_def july_row_def)
  have sig: "col_anomaly_significant tasmax (get_weather_dataframe ''x'' example_docs) (example_df ! 0)"
    "col_anomaly_significant tasmin (get_weather_dataframe ''x'' example_docs) (example_df ! 0)"
    by (simp_all add: example_dataframe example_significant)
  from dedup_persisted [OF st, of "''x''" example_docs] ids r sig
  have "filter (\<lambda>a. dedup_key a = (row_id (example_df ! 0), TEMPERATURE))
          (persisted ''x'' (snd (run_full_anomaly_detection ''x'' example_docs example_store)))
        = [maximum_temperature_anomaly ''x''
             (scored_row (get_weather_dataframe ''x'' example_docs) (example_df ! 0))]"
    and "distinct (map dedup_key
        (persisted ''x'' (snd (run_full_anomaly_detection ''x'' example_docs example_store))))"
    by blast+
  then show ?thesis
    using st ids r sig by (simp add: id example_dataframe example_first_temperature)
qed

subsection \<open>Rejected storage calls\<close>

text \<open>
  Claim C8, as the code has it.  When the storage collaborator rejects the delete call,
  the run returns only the error, with success false, and the store is left as it was.
  When it accepts the delete and rejects the insert, the run returns success true: its
  result carries the counts of the detected anomalies, a save_result with success false
  and a saved count of 0, and the time series of the scorer (every record's deviation,
  z-score and significance flag); no anomaly is stored for the location.
\<close>

theorem storage_rejection:
  "(rejects_delete st \<longrightarrow>
      fst (run_full_anomaly_detection loc wd st) = Failed StorageError
      \<and> \<not> success (fst (run_full_anomaly_detection loc wd st))
      \<and> snd (run_full_anomaly_detection loc wd st) = st)
   \<and> (\<not> rejects_delete st \<and> rejects_insert st
       \<and> get_notebook_style_anomalies loc wd @ detect_extreme_events loc wd \<noteq> [] \<longrightarrow>
      fst (run_full_anomaly_detection loc wd st) =
        Completed
          (length (get_notebook_style_anomalies loc wd @ detect_extreme_events loc wd))
          (length (get_notebook_style_anomalies loc wd))
          (length (detect_extreme_events loc wd))
          \<lparr>sr_success = False, sr_message = ErrorSavingAnomalies StorageError, saved_count = 0\<rparr>
          (get_anomaly_timeseries_data loc wd)
      \<and> success (fst (run_full_anomaly_detection loc wd st))
      \<and> \<not> sr_success (save_result (fst (run_full_anomaly_detection loc wd st)))
      \<and> saved_count (save_result (fst (run_full_anomaly_detection loc wd st))) = 0
      \<and> persisted loc (snd (run_full_anomaly_detection loc wd st)) = [])"
proof -
  have "remove_duplicates {} (get_notebook_style_anomalies loc wd @ detect_extreme_events loc wd) \<noteq> []"
    if "get_notebook_style_anomalies loc wd @ detect_extreme_events loc wd \<noteq> []"
    using that by (rule remove_duplicates_nonempty)
  then show ?thesis
    by (auto simp: run_full_anomaly_detection_def delete_many_def save_anomalies_def
        insert_many_def persisted_def Let_def simp del: append_is_Nil_conv)
qed

lemma example_all_nonempty:
  "get_notebook_style_anomalies ''x'' example_docs @ detect_extreme_events ''x'' example_docs \<noteq> []"
  by (simp add: example_notebook example_notebook_anomalies_def)

theorem storage_rejection_counterexample:
  "rejects_insert (rejecting_store False True)
   \<and> get_notebook_style_anomalies ''x'' example_docs @ detect_extreme_events ''x'' example_docs \<noteq> []
   \<and> success (fst (run_full_anomaly_detection ''x'' example_docs (rejecting_store False True)))"
  using example_all_nonempty
  by (simp add: run_full_anomaly_detection_def delete_many_def save_anomalies_def
      insert_many_def rejecting_store_def Let_def remove_duplicates_nonempty
      del: append_is_Nil_conv split: prod.splits)

lemma example_timeseries:
  "get_anomaly_timeseries_data ''x'' example_docs =
     Some \<lparr>precipitation =
              metric_timeseries pr_cols pr (calculate_anomalies_with_zscores example_df),
           max_temperature =
              metric_timeseries tasmax_cols tasmax (calculate_anomalies_with_zscores example_df),
           min_temperature =
              metric_timeseries tasmin_cols tasmin (calculate_anomalies_with_zscores example_df)\<rparr>"
  and "ts_z_scores (metric_timeseries pr_cols pr (calculate_anomalies_with_zscores example_df)) =
     [Fin 2, Fin (- 2), Fin (1 / 2), Fin (- (1 / 2)), Fin (1 / 2), Fin (- (1 / 2)),
      Fin 0, Fin 0, Fin 0, Fin 0]"
proof -
  have "example_df \<noteq> []" by (simp add: example_df_def)
  then show "get_anomaly_timeseries_data ''x'' example_docs =
     Some \<lparr>precipitation =
              metric_timeseries pr_cols pr (calculate_anomalies_with_zscores example_df),
           max_temperature =
              metric_timeseries tasmax_cols tasmax (calculate_anomalies_with_zscores example_df),
           min_temperature =
              metric_timeseries tasmin_cols tasmin (calculate_anomalies_with_zscores example_df)\<rparr>"
    by (simp add: get_anomaly_timeseries_data_def example_dataframe Let_def
        calculate_anomalies_with_zscores_def)
  show "ts_z_scores (metric_timeseries pr_cols pr (calculate_anomalies_with_zscores example_df)) =
     [Fin 2, Fin (- 2), Fin (1 / 2), Fin (- (1 / 2)), Fin (1 / 2), Fin (- (1 / 2)),
      Fin 0, Fin 0, Fin 0, Fin 0]"
    unfolding example_scored_rows
    by (simp add: metric_timeseries_def) (simp add: example_df_def july_row_def)
qed

theorem storage_rejection_witness:
  "rejects_delete (rejecting_store True False)
   \<and> fst (run_full_anomaly_detection ''x'' example_docs (rejecting_store True False))
       = Failed StorageError
   \<and> snd (run_full_anomaly_detection ''x'' example_docs (rejecting_store True False))
       = rejecting_store True False
   \<and> \<not> rejects_delete (rejecting_store False True) \<and> rejects_insert (rejecting_store False True)
   \<and> fst (run_full_anomaly_detection ''x'' example_docs (rejecting_store False True)) =
        Completed 9 6 3
          \<lparr>sr_success = False, sr_message = ErrorSavingAnomalies StorageError, saved_count = 0\<rparr>
          (get_anomaly_timeseries_data ''x'' example_docs)
   \<and> get_anomaly_timeseries_data ''x'' example_docs \<noteq> None
   \<and> persisted ''x'' (snd (run_full_anomaly_detection ''x'' example_docs (rejecting_store False True)))
       = []"
proof -
  have d: "rejects_delete (rejecting_store True False)"
    and i: "\<not> rejects_delete (rejecting_store False True)" "rejects_insert (rejecting_store False True)"
    by (simp_all add: rejecting_store_def)
  have counts: "length (get_notebook_style_anomalies ''x'' example_docs) = 6"
    "length (detect_extreme_events ''x'' example_docs) = 3"
    by (simp_all add: example_notebook example_extreme example_notebook_anomalies_def
        example_extreme_events_def)
  have ts: "get_anomaly_timeseries_data ''x'' example_docs \<noteq> None"
    by (simp add: example_timeseries(1))
  show ?thesis
    using storage_rejection [of "rejecting_store True False" "''x''" example_docs]
      storage_rejection [of "rejecting_store False True" "''x''" example_docs]
      d i example_all_nonempty counts ts
    by simp
qed

subsection \<open>The extreme-event detector\<close>

lemma record_checks_regular:
  assumes "\<forall>k. sample_std (map (kind_field k) records) \<noteq> 0"
  shows "record_checks loc m records rcd =
           Inr (extreme_hit loc m records RecordHigh rcd
                @ extreme_hit loc m records RecordLow rcd
                @ extreme_hit loc m records RecordPrecipitation rcd)"
proof -
  have "sample_std (map tasmax_avg records) \<noteq> 0" "sample_std (map tasmin_avg records) \<noteq> 0"
    "sample_std (map pr_total records) \<noteq> 0"
    using assms [rule_format, of RecordHigh] assms [rule_format, of RecordLow]
      assms [rule_format, of RecordPrecipitation] by simp_all
  then show ?thesis
    by (simp add: record_checks_def Let_def extreme_check_regular extreme_hit_def)
qed

lemma month_extremes_regular:
  assumes "10 \<le> length (snd entry) \<longrightarrow> (\<forall>k. sample_std (map (kind_field k) (snd entry)) \<noteq> 0)"
  shows "month_extremes loc entry =
           Inr (if length (snd entry) < 10 then []
                else concat (map (\<lambda>rcd. extreme_hit loc (fst entry) (snd entry) RecordHigh rcd
                              @ extreme_hit loc (fst entry) (snd entry) RecordLow rcd
                              @ extreme_hit loc (fst entry) (snd entry) RecordPrecipitation rcd)
                       (snd entry)))"
proof (cases "length (snd entry) < 10")
  case True
  then show ?thesis by (simp add: month_extremes_def)
next
  case False
  then have "\<forall>k. sample_std (map (kind_field k) (snd entry)) \<noteq> 0" using assms by simp
  then show ?thesis
    using False
    by (simp add: month_extremes_def Let_def collect_Inr_I [OF record_checks_regular])
qed

lemma extreme_events_regular:
  assumes "\<forall>entry \<in> set (monthly_records wd).
             10 \<le> length (snd entry) \<longrightarrow> (\<forall>k. sample_std (map (kind_field k) (snd entry)) \<noteq> 0)"
  shows "detect_extreme_events loc wd = expected_extreme_events loc wd"
proof (cases "wd = []")
  case True
  then show ?thesis
    by (simp add: detect_extreme_events_def detect_extreme_events_try_def
        expected_extreme_events_def monthly_records_def)
next
  case False
  have "collect (month_extremes loc) (monthly_records wd) = Inr (expected_extreme_events loc wd)"
    unfolding expected_extreme_events_def
    by (rule collect_Inr_I) (rule month_extremes_regular, use assms in blast)
  then show ?thesis
    using False by (simp add: detect_extreme_events_def detect_extreme_events_try_def)
qed

lemma flat_docs_july: "filter (\<lambda>r. get_month r = 7) flat_docs = flat_docs"
  by (simp add: flat_docs_def example_docs_def july_doc_def get_month_def)

lemma flat_docs_length: "length flat_docs = 10"
  by (simp add: flat_docs_def example_docs_def)

lemma flat_docs_tasmax: "\<forall>r \<in> set flat_docs. kind_field RecordHigh r = 40"
  by (simp add: flat_docs_def)

lemma flat_docs_raises: "detect_extreme_events_try loc flat_docs = Inl ZeroDivisionError"
proof (rule detect_extreme_events_try_raises [where m = 7 and k = RecordHigh])
  show "7 \<in> get_month ` set flat_docs"
    by (simp add: flat_docs_def example_docs_def july_doc_def get_month_def)
  show "10 \<le> length (filter (\<lambda>r. get_month r = 7) flat_docs)"
    by (simp add: flat_docs_july flat_docs_length)
  show "sample_std (map (kind_field RecordHigh) (filter (\<lambda>r. get_month r = 7) flat_docs)) = 0"
    unfolding flat_docs_july
    by (rule constant_sample_std [where c = 40]) (simp add: flat_docs_def)
qed

text \<open>
  Claim C4.  On ten Julys whose maximum temperature is 40 throughout, the standard
  deviation is 0 and calculate_z_score would return 0, but detect_extreme_events divides
  by the standard deviation itself: the body raises ZeroDivisionError and the handler
  returns the empty list.
\<close>

theorem extreme_events_division_by_zero:
  "calculate_std (map tasmax_avg flat_docs) = Inr 0
   \<and> calculate_z_score 40 40 0 = Inr 0
   \<and> detect_extreme_events_try ''x'' flat_docs = Inl ZeroDivisionError
   \<and> detect_extreme_events ''x'' flat_docs = []"
proof -
  have "sample_std (map tasmax_avg flat_docs) = 0"
    by (rule constant_sample_std [where c = 40]) (simp add: flat_docs_def)
  then show ?thesis
    by (simp add: calculate_std_eq calculate_z_score_def flat_docs_raises
        detect_extreme_events_def)
qed

lemma flat_docs_precipitation:
  "map pr_total flat_docs = [8, 0, 5, 3, 5, 3, 4, 4, 4, 4]"
  by (simp add: flat_docs_def example_docs_def july_doc_def)

text \<open>
  Claim C5.  In the same ten Julys the first record holds the highest precipitation of the
  month, 8, and its z-score against the month's mean 4 and standard deviation 2 is 2, so
  the record should be emitted; the division by zero on the maximum temperature makes the
  detector return the empty list instead.
\<close>

theorem extreme_events_lost:
  "length (filter (\<lambda>r. get_month r = 7) flat_docs) = 10
   \<and> pr_total (flat_docs ! 0) = Max (set (map pr_total flat_docs))
   \<and> extreme_z_score (Max (set (map pr_total flat_docs))) (map pr_total flat_docs) = Inr 2
   \<and> extreme_hit ''x'' 7 flat_docs RecordPrecipitation (flat_docs ! 0) = [example_extreme_events ! 1]
   \<and> detect_extreme_events ''x'' flat_docs = []"
proof -
  have "pr_total (flat_docs ! 0) = 8" "w_id (flat_docs ! 0) = ''r0''" "w_year (flat_docs ! 0) = 2000"
    by (simp_all add: flat_docs_def example_docs_def july_doc_def)
  then show ?thesis
    by (simp add: flat_docs_july flat_docs_length flat_docs_precipitation extreme_z_score_eq
        example_column_stats truediv_def detect_extreme_events_def flat_docs_raises
        extreme_hit_def example_extreme_events_def)
qed

theorem degenerate_month_counterexample:
  "10 \<le> length (filter (\<lambda>r. get_month r = 7) flat_docs)
   \<and> map tasmax_avg (filter (\<lambda>r. get_month r = 7) flat_docs) = [40, 40, 40, 40, 40, 40, 40, 40, 40, 40]
   \<and> length (filter (\<lambda>a. extreme_event_of (description a) = Some (RecordHigh, 7))
               (detect_extreme_events ''x'' flat_docs))
       \<noteq> length (filter (\<lambda>r. get_month r = 7) flat_docs)"
  by (simp add: flat_docs_july flat_docs_length detect_extreme_events_def flat_docs_raises)
     (simp add: flat_docs_def example_docs_def)

text \<open>
  Claim C6, as the code has it.  When a calendar month has at least ten records and one
  of the three variables has the same value in all of them, the extreme-event detector
  emits no anomaly for that variable and month.
\<close>

theorem degenerate_month_emits_nothing:
  assumes "10 \<le> length (filter (\<lambda>r. get_month r = m) wd)"
    and "\<forall>r \<in> set (filter (\<lambda>r. get_month r = m) wd). kind_field k r = c"
  shows "filter (\<lambda>a. extreme_event_of (description a) = Some (k, m))
           (detect_extreme_events loc wd) = []"
proof -
  have "filter (\<lambda>r. get_month r = m) wd \<noteq> []" using assms(1) by auto
  then have m: "m \<in> get_month ` set wd"
    by (auto simp: filter_empty_conv)
  have "sample_std (map (kind_field k) (filter (\<lambda>r. get_month r = m) wd)) = 0"
    by (rule constant_sample_std [where c = c]) (use assms(2) in auto)
  from detect_extreme_events_try_raises [OF m assms(1) this]
  show ?thesis by (simp add: detect_extreme_events_def)
qed

theorem degenerate_month_emits_nothing_witness:
  "10 \<le> length (filter (\<lambda>r. get_month r = 7) flat_docs)
   \<and> map (kind_field RecordHigh) (filter (\<lambda>r. get_month r = 7) flat_docs)
       = [40, 40, 40, 40, 40, 40, 40, 40, 40, 40]
   \<and> filter (\<lambda>a. extreme_event_of (description a) = Some (RecordHigh, 7))
        (detect_extreme_events ''x'' flat_docs) = []"
proof -
  have a: "10 \<le> length (filter (\<lambda>r. get_month r = 7) flat_docs)"
    by (simp add: flat_docs_july flat_docs_length)
  have b: "\<forall>r \<in> set (filter (\<lambda>r. get_month r = 7) flat_docs). kind_field RecordHigh r = 40"
    using flat_docs_tasmax by (simp add: flat_docs_july)
  have c: "map (kind_field RecordHigh) (filter (\<lambda>r. get_month r = 7) flat_docs)
       = [40, 40, 40, 40, 40, 40, 40, 40, 40, 40]"
    by (simp add: flat_docs_july) (simp add: flat_docs_def example_docs_def)
  from degenerate_month_emits_nothing [OF a b] a c show ?thesis by blast
qed

end
